theory Spec2Isabelle
  imports Complex_Main "HOL-Library.Sublist"
begin

section \<open>JavaScript numbers\<close>

text \<open>
  Every numeric field and variable of the program is a JavaScript \<^verbatim>\<open>number\<close>.
  The model keeps the values the program branches on: a finite value, the two
  infinities and NaN. Finite arithmetic is exact (over the reals): the rounding of
  IEEE-754 doubles, overflow to an infinity and the sign of zero are not modelled.
  What is modelled is that \<^verbatim>\<open>0 / 0\<close> is NaN, that a non-zero value divided by
  zero is an infinity, that NaN is absorbing, and that every comparison with NaN is
  false.
\<close>

datatype number = Fin real | PInf | NInf | NaN

instantiation number :: "{plus, minus, uminus, times, inverse, abs, ord}"
begin

fun uminus_number :: "number \<Rightarrow> number" where
  "uminus_number (Fin a) = Fin (- a)"
| "uminus_number PInf = NInf"
| "uminus_number NInf = PInf"
| "uminus_number NaN = NaN"

fun plus_number :: "number \<Rightarrow> number \<Rightarrow> number" where
  "plus_number (Fin a) (Fin b) = Fin (a + b)"
| "plus_number NaN _ = NaN"
| "plus_number _ NaN = NaN"
| "plus_number PInf NInf = NaN"
| "plus_number NInf PInf = NaN"
| "plus_number PInf _ = PInf"
| "plus_number _ PInf = PInf"
| "plus_number NInf _ = NInf"
| "plus_number _ NInf = NInf"

definition minus_number :: "number \<Rightarrow> number \<Rightarrow> number" where
  "minus_number a b = a + (- b)"

fun times_number :: "number \<Rightarrow> number \<Rightarrow> number" where
  "times_number (Fin a) (Fin b) = Fin (a * b)"
| "times_number NaN _ = NaN"
| "times_number _ NaN = NaN"
| "times_number (Fin a) PInf = (if a = 0 then NaN else if 0 < a then PInf else NInf)"
| "times_number (Fin a) NInf = (if a = 0 then NaN else if 0 < a then NInf else PInf)"
| "times_number PInf (Fin b) = (if b = 0 then NaN else if 0 < b then PInf else NInf)"
| "times_number NInf (Fin b) = (if b = 0 then NaN else if 0 < b then NInf else PInf)"
| "times_number PInf PInf = PInf"
| "times_number PInf NInf = NInf"
| "times_number NInf PInf = NInf"
| "times_number NInf NInf = PInf"

fun divide_number :: "number \<Rightarrow> number \<Rightarrow> number" where
  "divide_number (Fin a) (Fin b) =
     (if b = 0 then (if a = 0 then NaN else if 0 < a then PInf else NInf)
      else Fin (a / b))"
| "divide_number NaN _ = NaN"
| "divide_number _ NaN = NaN"
| "divide_number (Fin a) PInf = Fin 0"
| "divide_number (Fin a) NInf = Fin 0"
| "divide_number PInf (Fin b) = (if 0 \<le> b then PInf else NInf)"
| "divide_number NInf (Fin b) = (if 0 \<le> b then NInf else PInf)"
| "divide_number PInf PInf = NaN"
| "divide_number PInf NInf = NaN"
| "divide_number NInf PInf = NaN"
| "divide_number NInf NInf = NaN"

definition inverse_number :: "number \<Rightarrow> number" where
  "inverse_number a = divide (Fin 1) a"

fun abs_number :: "number \<Rightarrow> number" where
  "abs_number (Fin a) = Fin \<bar>a\<bar>"
| "abs_number PInf = PInf"
| "abs_number NInf = PInf"
| "abs_number NaN = NaN"

fun less_eq_number :: "number \<Rightarrow> number \<Rightarrow> bool" where
  "less_eq_number (Fin a) (Fin b) = (a \<le> b)"
| "less_eq_number NaN _ = False"
| "less_eq_number _ NaN = False"
| "less_eq_number NInf _ = True"
| "less_eq_number _ PInf = True"
| "less_eq_number PInf _ = False"
| "less_eq_number _ NInf = False"

fun less_number :: "number \<Rightarrow> number \<Rightarrow> bool" where
  "less_number (Fin a) (Fin b) = (a < b)"
| "less_number NaN _ = False"
| "less_number _ NaN = False"
| "less_number PInf _ = False"
| "less_number _ NInf = False"
| "less_number NInf _ = True"
| "less_number _ PInf = True"

instance ..

end

text \<open>
  The operators \<^verbatim>\<open>a >= b\<close> and \<^verbatim>\<open>a > b\<close> of the source are written
  \<open>b \<le> a\<close> and \<open>b < a\<close>. Strict equality \<^verbatim>\<open>===\<close> differs from HOL equality at
  NaN, and the truthiness of a number decides \<^verbatim>\<open>||\<close>.
\<close>

fun strict_eq :: "number \<Rightarrow> number \<Rightarrow> bool" where
  "strict_eq NaN _ = False"
| "strict_eq _ NaN = False"
| "strict_eq a b = (a = b)"

fun truthy :: "number \<Rightarrow> bool" where
  "truthy (Fin a) = (a \<noteq> 0)"
| "truthy NaN = False"
| "truthy _ = True"

fun math_max :: "number \<Rightarrow> number \<Rightarrow> number" where
  "math_max NaN _ = NaN"
| "math_max _ NaN = NaN"
| "math_max a b = (if a \<le> b then b else a)"

fun math_min :: "number \<Rightarrow> number \<Rightarrow> number" where
  "math_min NaN _ = NaN"
| "math_min _ NaN = NaN"
| "math_min a b = (if a \<le> b then a else b)"

text \<open>\<^verbatim>\<open>Math.max(...xs)\<close> and \<^verbatim>\<open>Math.min(...xs)\<close>; on no argument they are
  \<^verbatim>\<open>-Infinity\<close> and \<^verbatim>\<open>Infinity\<close>.\<close>

definition math_max_list :: "number list \<Rightarrow> number" where
  "math_max_list xs = foldl math_max NInf xs"

definition math_min_list :: "number list \<Rightarrow> number" where
  "math_min_list xs = foldl math_min PInf xs"

fun math_floor :: "number \<Rightarrow> number" where
  "math_floor (Fin a) = Fin (of_int \<lfloor>a\<rfloor>)"
| "math_floor a = a"

section \<open>Geometric model (types/s3dx.ts)\<close>

text \<open>
  The interfaces of the source as records. Several interfaces share field names
  (\<^verbatim>\<open>version\<close>, \<^verbatim>\<open>color\<close>, \<^verbatim>\<open>open\<close>), and a field named like a variable of
  the source (\<^verbatim>\<open>bezier\<close>, \<^verbatim>\<open>board\<close>, \<^verbatim>\<open>points\<close>) would capture it, so every
  field carries a prefix for its interface (\<open>pt_\<close> for Point3D, \<open>pg_\<close> for
  Polygon3D, \<open>bz_\<close> for Bezier3D, \<open>bd_\<close> for Board, \<open>lt_\<close> for Lighting,
  \<open>cpl_\<close> for Couple, \<open>vw_\<close> for View, \<open>cam_\<close> for Camera, \<open>sc_\<close> for Scene,
  \<open>dsn_\<close> for Shape3DDesign).
\<close>

record Point3D =
  pt_x :: number
  pt_y :: number
  pt_z :: number
  pt_u :: number
  pt_color :: number

record Polygon3D =
  pg_nb_of_points :: number
  pg_open :: number
  pg_symmetry :: number
  pg_symmetry_center :: Point3D
  pg_plan :: number
  pg_points :: "Point3D list"

record Bezier3D =
  bz_name :: string
  bz_degree :: number
  bz_open :: number
  bz_symmetry :: number
  bz_plan :: number
  bz_control_points :: Polygon3D
  bz_tangents_1 :: Polygon3D
  bz_tangents_2 :: Polygon3D
  bz_tangents_m :: Polygon3D
  bz_control_type_points :: "number list"
  bz_tangent_type_points :: "number list"

record Couple =
  cpl_dessus :: number
  cpl_dessous :: number
  cpl_displayed :: number
  cpl_bezier :: Bezier3D

record Board =
  bd_version :: number
  bd_version_number :: string
  bd_name :: string
  bd_author :: string
  bd_comment :: string
  bd_variation :: string
  bd_category :: string
  bd_category_type :: string
  bd_construction :: string
  bd_rider_name :: string
  bd_rider_weight :: number
  bd_length :: number
  bd_length_dev :: number
  bd_width :: number
  bd_thickness :: number
  bd_tail_rocker :: number
  bd_nose_rocker :: number
  bd_volume :: number
  bd_surface_proj :: number
  bd_volume_tail :: number
  bd_volume_nose :: number
  bd_surface_proj_tail :: number
  bd_surface_proj_nose :: number
  bd_otl :: Bezier3D
  bd_str_bot :: Bezier3D
  bd_str_deck :: Bezier3D
  bd_number_of_slices :: number
  bd_couples :: "Couple list"
  bd_color :: number
  bd_color_bot :: number
  bd_color_rail :: number

record Lighting =
  lt_version :: number
  lt_ecl :: Point3D
  lt_color :: number
  lt_color_spot :: number
  lt_intensity :: number
  lt_intensity2 :: number
  lt_intensity_ambient :: number
  lt_intensity_spec :: number

record View =
  vw_version :: number
  vw_wh :: number
  vw_ww :: number
  vw_wox :: number
  vw_woy :: number
  vw_uh :: number
  vw_uw :: number
  vw_uxmin :: number
  vw_uymin :: number
  vw_cxy :: number
  vw_mrgx :: number
  vw_mrgy :: number
  vw_police :: string
  vw_over_sample :: number
  vw_grid :: number

record Camera =
  cam_version :: number
  cam_alpha :: number
  cam_dim_obj :: number
  cam_crot :: Point3D
  cam_cvis :: Point3D
  cam_ccam :: Point3D
  cam_oy :: Point3D
  cam_ur :: Point3D
  cam_view :: View

record Scene =
  sc_version :: number
  sc_background_color :: number
  sc_lighting :: Lighting
  sc_camera :: Camera
  sc_reflexion_map :: string
  sc_display_sky_box :: number

record Shape3DDesign =
  dsn_board :: Board
  dsn_scene :: Scene

text \<open>
  What the program raises: \<^verbatim>\<open>new Error(message)\<close>, and the \<^verbatim>\<open>TypeError\<close> of
  reading a property of \<^verbatim>\<open>undefined\<close>. A function that can raise returns
  \<open>error + 'a\<close>, with \<open>Inl\<close> the exception.
\<close>

datatype error = Error string | TypeError

section \<open>Curve evaluator (BezierEvaluator)\<close>

definition evaluateCubicBezier ::
  "Point3D \<Rightarrow> Point3D \<Rightarrow> Point3D \<Rightarrow> Point3D \<Rightarrow> number \<Rightarrow> Point3D" where
  "evaluateCubicBezier p0 p1 p2 p3 t =
    (let invT = Fin 1 - t;
         t2 = t * t;
         t3 = t2 * t;
         invT2 = invT * invT;
         invT3 = invT2 * invT
     in \<lparr> pt_x = invT3 * pt_x p0 + Fin 3 * invT2 * t * pt_x p1 + Fin 3 * invT * t2 * pt_x p2 + t3 * pt_x p3,
          pt_y = invT3 * pt_y p0 + Fin 3 * invT2 * t * pt_y p1 + Fin 3 * invT * t2 * pt_y p2 + t3 * pt_y p3,
          pt_z = invT3 * pt_z p0 + Fin 3 * invT2 * t * pt_z p1 + Fin 3 * invT * t2 * pt_z p2 + t3 * pt_z p3,
          pt_u = invT3 * pt_u p0 + Fin 3 * invT2 * t * pt_u p1 + Fin 3 * invT * t2 * pt_u p2 + t3 * pt_u p3,
          pt_color = pt_color p0 \<rparr>)"

definition evaluateQuadraticBezier ::
  "Point3D \<Rightarrow> Point3D \<Rightarrow> Point3D \<Rightarrow> number \<Rightarrow> Point3D" where
  "evaluateQuadraticBezier p0 p1 p2 t =
    (let invT = Fin 1 - t;
         invT2 = invT * invT;
         t2 = t * t;
         twoInvTt = Fin 2 * invT * t
     in \<lparr> pt_x = invT2 * pt_x p0 + twoInvTt * pt_x p1 + t2 * pt_x p2,
          pt_y = invT2 * pt_y p0 + twoInvTt * pt_y p1 + t2 * pt_y p2,
          pt_z = invT2 * pt_z p0 + twoInvTt * pt_z p1 + t2 * pt_z p2,
          pt_u = invT2 * pt_u p0 + twoInvTt * pt_u p1 + t2 * pt_u p2,
          pt_color = pt_color p0 \<rparr>)"

text \<open>
  \<^verbatim>\<open>evaluateLinear\<close> is the expression \<^verbatim>\<open>p0 + t * (p1 - p0)\<close> of the source, coordinate
  by coordinate, over the numbers of the model. The program rounds each operation to a
  double, so its value at \<open>t = 1\<close> need not be \<open>p1\<close> and a finite difference may
  overflow; the properties of linear sampling below refer to \<^verbatim>\<open>evaluateLinear\<close> itself
  and use no closed form of its finite values.
\<close>

definition evaluateLinear :: "Point3D \<Rightarrow> Point3D \<Rightarrow> number \<Rightarrow> Point3D" where
  "evaluateLinear p0 p1 t =
     \<lparr> pt_x = pt_x p0 + t * (pt_x p1 - pt_x p0),
       pt_y = pt_y p0 + t * (pt_y p1 - pt_y p0),
       pt_z = pt_z p0 + t * (pt_z p1 - pt_z p0),
       pt_u = pt_u p0 + t * (pt_u p1 - pt_u p0),
       pt_color = pt_color p0 \<rparr>"

text \<open>
  \<^verbatim>\<open>generateBezierPoints\<close> allocates \<^verbatim>\<open>new Array(numPoints)\<close> and writes its
  slots by index. The array is a list of optional points: \<open>None\<close> is a slot that was
  never written. \<open>numPoints\<close> is a natural number (every caller passes an integer
  literal); the \<^verbatim>\<open>RangeError\<close> of \<^verbatim>\<open>new Array\<close> on a negative, fractional or
  oversized length is outside the model. Every write of the source is guarded by
  \<^verbatim>\<open>pointIdx < numPoints\<close> or by the loop bound, so a write never extends the array
  and \<open>list_update\<close> is the assignment.

  The inner loop \<^verbatim>\<open>for (j = 0; j < segmentPoints; j++)\<close> of the cubic and polyline
  cases, with its \<^verbatim>\<open>break\<close>; the state is the array and \<^verbatim>\<open>pointIdx\<close>, and \<open>ev\<close> is
  the evaluation of the segment at a parameter.
\<close>

function fillSegment ::
  "(number \<Rightarrow> Point3D) \<Rightarrow> nat \<Rightarrow> nat \<Rightarrow> nat \<Rightarrow> Point3D option list \<times> nat
     \<Rightarrow> Point3D option list \<times> nat" where
  "fillSegment ev numPoints segmentPoints j (pts, pointIdx) =
     (if j < segmentPoints then
        (if numPoints \<le> pointIdx then (pts, pointIdx)
         else
           let localT = (if 1 < segmentPoints
                         then Fin (real j) / Fin (real (segmentPoints - 1))
                         else Fin 0)
           in fillSegment ev numPoints segmentPoints (Suc j)
                (pts[pointIdx := Some (ev localT)], Suc pointIdx))
      else (pts, pointIdx))"
  by pat_completeness auto
termination
  by (relation "measure (\<lambda>(ev, numPoints, segmentPoints, j, st). segmentPoints - j)") auto

text \<open>
  The outer loop \<^verbatim>\<open>for (seg = 0; seg < numControlSegments; seg++)\<close>. The last
  segment takes \<^verbatim>\<open>numPoints - pointIdx\<close> points; \<open>pointIdx\<close> never exceeds
  \<open>numPoints\<close>, so the subtraction on naturals is the source's.
\<close>

function fillSegments ::
  "(nat \<Rightarrow> number \<Rightarrow> Point3D) \<Rightarrow> nat \<Rightarrow> nat \<Rightarrow> nat \<Rightarrow> nat \<Rightarrow> Point3D option list \<times> nat
     \<Rightarrow> Point3D option list \<times> nat" where
  "fillSegments ev numPoints numSegments pointsPerSegment seg (pts, pointIdx) =
     (if seg < numSegments then
        let segmentPoints = (if seg = numSegments - 1 then numPoints - pointIdx
                             else pointsPerSegment)
        in fillSegments ev numPoints numSegments pointsPerSegment (Suc seg)
             (fillSegment (ev seg) numPoints segmentPoints 0 (pts, pointIdx))
      else (pts, pointIdx))"
  by pat_completeness auto
termination
  by (relation "measure (\<lambda>(ev, numPoints, numSegments, pps, seg, st). numSegments - seg)") auto

text \<open>
  The loop \<^verbatim>\<open>for (i = 0; i < numPoints; i++)\<close> of the quadratic and the linear case:
  \<^verbatim>\<open>t = i / (numPoints - 1)\<close> with no guard on the divisor.
\<close>

function fillUniform ::
  "(number \<Rightarrow> Point3D) \<Rightarrow> nat \<Rightarrow> nat \<Rightarrow> Point3D option list \<Rightarrow> Point3D option list" where
  "fillUniform ev numPoints i pts =
     (if i < numPoints then
        let t = Fin (real i) / Fin (real_of_int (int numPoints - 1))
        in fillUniform ev numPoints (Suc i) (pts[i := Some (ev t)])
      else pts)"
  by pat_completeness auto
termination
  by (relation "measure (\<lambda>(ev, numPoints, i, pts). numPoints - i)") auto

definition generateBezierPoints :: "Bezier3D \<Rightarrow> nat \<Rightarrow> Point3D option list" where
  "generateBezierPoints bezier numPoints =
     (if length (pg_points (bz_control_points bezier)) < 2 then []
      else
        let cp = pg_points (bz_control_points bezier);
            t1 = (if 0 < length (pg_points (bz_tangents_1 bezier)) then pg_points (bz_tangents_1 bezier) else []);
            t2 = (if 0 < length (pg_points (bz_tangents_2 bezier)) then pg_points (bz_tangents_2 bezier) else []);
            pts = replicate numPoints None
        in
          if 2 \<le> length cp \<and> length cp \<le> length t1 \<and> length cp \<le> length t2 then
            (let numControlSegments = length cp - 1;
                 pointsPerSegment = numPoints div numControlSegments
             in fst (fillSegments
                       (\<lambda>seg. evaluateCubicBezier (cp ! seg) (t2 ! seg) (t1 ! (seg + 1)) (cp ! (seg + 1)))
                       numPoints numControlSegments pointsPerSegment 0 (pts, 0)))
          else if length cp = 3 then
            fillUniform (evaluateQuadraticBezier (cp ! 0) (cp ! 1) (cp ! 2)) numPoints 0 pts
          else if length cp = 2 then
            fillUniform (evaluateLinear (cp ! 0) (cp ! 1)) numPoints 0 pts
          else if 3 < length cp then
            (let totalSegments = length cp - 1;
                 pointsPerSegment = numPoints div totalSegments
             in fst (fillSegments
                       (\<lambda>seg. evaluateLinear (cp ! seg) (cp ! (seg + 1)))
                       numPoints totalSegments pointsPerSegment 0 (pts, 0)))
          else [])"

text \<open>
  \<^verbatim>\<open>mirrorCrossSectionPoints\<close>. The copy \<^verbatim>\<open>[...halfPoints]\<close> is the list itself;
  the loop pushes the mirrored points one by one, here the \<open>map\<close> over the loop
  indices.
\<close>

definition mirrorCrossSectionPoints :: "Point3D list \<Rightarrow> Point3D list" where
  "mirrorCrossSectionPoints halfPoints =
     (if length halfPoints = 0 then []
      else
        let hasNegative = list_ex (\<lambda>pt. pt_y pt < Fin (- 0.001)) halfPoints
        in if hasNegative then halfPoints
           else
             let startIdx = (if \<bar>pt_y (halfPoints ! 0)\<bar> < Fin 0.001 then 1 else 0::nat);
                 numToMirror = length halfPoints - startIdx
             in halfPoints @
                map (\<lambda>i. let srcIdx = length halfPoints - 1 - i;
                             mirroredPoint = halfPoints ! srcIdx
                         in mirroredPoint\<lparr>pt_y := - pt_y mirroredPoint\<rparr>)
                    [0..<numToMirror])"

text \<open>
  \<^verbatim>\<open>interpolateZAtX\<close>: the search loop \<^verbatim>\<open>for (i = 0; i < points.length - 1; i++)\<close>
  with its early return (\<open>Some\<close>), then the two clamping returns.
\<close>

function interpolateZAtX_loop :: "Point3D list \<Rightarrow> number \<Rightarrow> nat \<Rightarrow> number option" where
  "interpolateZAtX_loop pts x i =
     (if i + 1 < length pts then
        (if pt_x (pts ! i) \<le> x \<and> x \<le> pt_x (pts ! (i + 1)) then
           (let t = (x - pt_x (pts ! i)) / (pt_x (pts ! (i + 1)) - pt_x (pts ! i))
            in Some (pt_z (pts ! i) * (Fin 1 - t) + pt_z (pts ! (i + 1)) * t))
         else interpolateZAtX_loop pts x (Suc i))
      else None)"
  by pat_completeness auto
termination
  by (relation "measure (\<lambda>(pts, x, i). length pts - i)") auto

definition interpolateZAtX :: "Point3D list \<Rightarrow> number \<Rightarrow> number" where
  "interpolateZAtX pts x =
     (if length pts = 0 then Fin 0
      else case interpolateZAtX_loop pts x 0 of
             Some z \<Rightarrow> z
           | None \<Rightarrow> if x < pt_x (pts ! 0) then pt_z (pts ! 0)
                     else pt_z (pts ! (length pts - 1)))"

text \<open>
  The callers of \<^verbatim>\<open>generateBezierPoints\<close> read the returned array as a sequence of
  points. No slot of a returned array is empty (lemma
  \<open>generateBezierPoints_filled\<close> below), so the read of a slot is \<open>the\<close>.
\<close>

definition arrayPoints :: "Point3D option list \<Rightarrow> Point3D list" where
  "arrayPoints a = map the a"

section \<open>Mesh synthesizer (BoardCADMeshGenerator)\<close>

text \<open>
  The generator reads a design of the declared type: every field an interface declares
  is present, so a guard such as \<^verbatim>\<open>cs.bezier && cs.bezier.control_points && ...\<close>
  is its last conjunct, and \<^verbatim>\<open>if (!couple.bezier) return []\<close> never returns.

  The objects of the three.js library that the generator builds, as the constructor
  calls of the source: a geometry is either a \<^verbatim>\<open>BufferGeometry\<close> with its
  \<^verbatim>\<open>position\<close>, \<^verbatim>\<open>normal\<close> and \<^verbatim>\<open>uv\<close> attributes and its index, or a
  \<^verbatim>\<open>BoxGeometry\<close>; a material is a \<^verbatim>\<open>MeshPhongMaterial\<close> with the parameters the
  source passes. The conversion of the buffers to 32-bit floats and the normals that
  \<^verbatim>\<open>computeVertexNormals\<close> writes afterwards are the library's and are not modelled:
  the normal buffer holds the placeholders the source pushes.
\<close>

datatype Side = DoubleSide

datatype Geometry =
    BufferGeometry (geo_position: "number list") (geo_normal: "number list")
                   (geo_uv: "number list") (geo_index: "nat list")
  | BoxGeometry number number number

datatype Material =
  MeshPhongMaterial (mat_color: nat) (mat_shininess: "number option") (mat_side: "Side option")

datatype Mesh = Mesh Geometry Material

text \<open>
  \<^verbatim>\<open>generateTriangles\<close> pushes six indices for every quad of the grid onto the index
  array it is given; the array goes in and comes out.
\<close>

definition quadIndices :: "nat \<Rightarrow> nat \<Rightarrow> nat \<Rightarrow> nat list" where
  "quadIndices vSteps i j =
     (let verticesPerRow = vSteps + 1;
          idx0 = i * verticesPerRow + j;
          idx1 = i * verticesPerRow + j + 1;
          idx2 = (i + 1) * verticesPerRow + j;
          idx3 = (i + 1) * verticesPerRow + j + 1;
          idx1 = (if j = vSteps - 1 then i * verticesPerRow else idx1);
          idx3 = (if j = vSteps - 1 then (i + 1) * verticesPerRow else idx3)
      in [idx0, idx2, idx1, idx1, idx2, idx3])"

definition generateTriangles :: "nat list \<Rightarrow> nat \<Rightarrow> nat \<Rightarrow> nat list" where
  "generateTriangles indices uSteps vSteps =
     foldl (\<lambda>indices i. foldl (\<lambda>indices j. indices @ quadIndices vSteps i j) indices [0..<vSteps])
       indices [0..<uSteps]"

text \<open>\<^verbatim>\<open>getWidthAtX\<close>: the interpolation loop with its \<^verbatim>\<open>break\<close>, then the function.\<close>

function getWidthAtX_interpolate :: "Point3D list \<Rightarrow> number \<Rightarrow> nat \<Rightarrow> number option" where
  "getWidthAtX_interpolate halfOutline x i =
     (if i + 1 < length halfOutline then
        (let p1 = halfOutline ! i;
             p2 = halfOutline ! (i + 1)
         in if pt_x p1 \<le> x \<and> x \<le> pt_x p2 then
              (let t = (x - pt_x p1) / (pt_x p2 - pt_x p1)
               in Some (\<bar>pt_y p1\<bar> * (Fin 1 - t) + \<bar>pt_y p2\<bar> * t))
            else getWidthAtX_interpolate halfOutline x (Suc i))
      else None)"
  by pat_completeness auto
termination
  by (relation "measure (\<lambda>(halfOutline, x, i). length halfOutline - i)") auto

definition getWidthAtX :: "Board \<Rightarrow> number \<Rightarrow> number" where
  "getWidthAtX board x =
     (let halfOutline = arrayPoints (generateBezierPoints (bd_otl board) 200)
      in if length halfOutline = 0 then Fin 20
         else
           let (maxY, found) =
                 foldl (\<lambda>(maxY, found) pt.
                          if \<bar>pt_x pt - x\<bar> < Fin 2 then (math_max maxY \<bar>pt_y pt\<bar>, True)
                          else (maxY, found))
                   (Fin 0, False) halfOutline;
               (maxY, found) =
                 (if \<not> found then
                    (case getWidthAtX_interpolate halfOutline x 0 of
                       Some w \<Rightarrow> (w, True)
                     | None \<Rightarrow> (maxY, found))
                  else (maxY, found))
           in if \<not> found then Fin 0 else maxY * Fin 2)"

definition getBottomAtX :: "Board \<Rightarrow> number \<Rightarrow> number" where
  "getBottomAtX board x =
     interpolateZAtX (arrayPoints (generateBezierPoints (bd_str_bot board) 200)) x"

definition getDeckAtX :: "Board \<Rightarrow> number \<Rightarrow> number" where
  "getDeckAtX board x =
     (if 0 < length (pg_points (bz_control_points (bd_str_deck board))) then
        interpolateZAtX (arrayPoints (generateBezierPoints (bd_str_deck board) 200)) x
      else getBottomAtX board x + bd_thickness board)"

definition getThicknessAtX :: "Board \<Rightarrow> number \<Rightarrow> number" where
  "getThicknessAtX board x = getDeckAtX board x - getBottomAtX board x"

definition generateScaledCrossSection :: "Couple \<Rightarrow> number \<Rightarrow> number \<Rightarrow> Point3D list" where
  "generateScaledCrossSection couple targetWidth targetThickness =
     (let halfPoints = arrayPoints (generateBezierPoints (cpl_bezier couple) 50);
          basePoints = mirrorCrossSectionPoints halfPoints
      in if length basePoints = 0 then []
         else
           let minY = math_min_list (map pt_y basePoints);
               maxY = math_max_list (map pt_y basePoints);
               minZ = math_min_list (map pt_z basePoints);
               maxZ = math_max_list (map pt_z basePoints);
               currentWidth = maxY - minY;
               currentThickness = maxZ - minZ;
               widthScale = (if Fin 0 < currentWidth then targetWidth / currentWidth else Fin 1);
               thicknessScale = (if Fin 0 < currentThickness then targetThickness / currentThickness
                                 else Fin 1);
               centerY = (minY + maxY) * Fin 0.5;
               centerZ = (minZ + maxZ) * Fin 0.5
           in map (\<lambda>pt. \<lparr> pt_x = pt_x pt,
                           pt_y = (pt_y pt - centerY) * widthScale,
                           pt_z = ((pt_z pt - centerZ) * thicknessScale) - (targetThickness * Fin 0.5),
                           pt_u = pt_u pt,
                           pt_color = pt_color pt \<rparr>) basePoints)"

text \<open>
  A read \<^verbatim>\<open>a[i]\<close> at a computed index: \<^verbatim>\<open>undefined\<close> (\<open>None\<close>) outside the array.
\<close>

definition arrayGet :: "'a list \<Rightarrow> int \<Rightarrow> 'a option" where
  "arrayGet a i = (if 0 \<le> i \<and> i < int (length a) then Some (a ! nat i) else None)"

text \<open>
  A \<^verbatim>\<open>for\<close> loop whose body may raise: the body takes the loop index and the
  state and returns the new state or the exception, which ends the loop.
\<close>

fun forEach :: "(nat \<Rightarrow> 's \<Rightarrow> error + 's) \<Rightarrow> nat list \<Rightarrow> 's \<Rightarrow> error + 's" where
  "forEach body [] st = Inr st"
| "forEach body (i # is) st =
     (case body i st of Inl e \<Rightarrow> Inl e | Inr st' \<Rightarrow> forEach body is st')"

text \<open>
  The search of \<^verbatim>\<open>getInterpolatedCrossSection\<close> for the surrounding cross-sections,
  with its \<^verbatim>\<open>break\<close>; the state is \<^verbatim>\<open>(prevIdx, nextIdx)\<close>.
\<close>

function findSurrounding :: "Couple list \<Rightarrow> number \<Rightarrow> nat \<Rightarrow> nat \<times> nat \<Rightarrow> nat \<times> nat" where
  "findSurrounding cps x i (prevIdx, nextIdx) =
     (if i < length cps then
        (let cs = cps ! i
         in if 0 < length (pg_points (bz_control_points (cpl_bezier cs))) then
              (let csX = pt_x (pg_points (bz_control_points (cpl_bezier cs)) ! 0);
                   prevIdx = (if csX \<le> x then i else prevIdx)
               in if x \<le> csX \<and> nextIdx = 0 then (prevIdx, i)
                  else findSurrounding cps x (Suc i) (prevIdx, nextIdx))
            else findSurrounding cps x (Suc i) (prevIdx, nextIdx))
      else (prevIdx, nextIdx))"
  by pat_completeness auto
termination
  by (relation "measure (\<lambda>(cps, x, i, st). length cps - i)") auto

text \<open>
  \<^verbatim>\<open>cs.bezier?.control_points?.points?.[0]?.x || dflt\<close>: the first control point's
  x, or \<open>dflt\<close> when there is no control point or its x is falsy (zero or NaN).
\<close>

definition firstXOr :: "Couple \<Rightarrow> number \<Rightarrow> number" where
  "firstXOr cs dflt =
     (case pg_points (bz_control_points (cpl_bezier cs)) of
        [] \<Rightarrow> dflt
      | p # _ \<Rightarrow> if truthy (pt_x p) then pt_x p else dflt)"

definition getInterpolatedCrossSection :: "Board \<Rightarrow> number \<Rightarrow> error + Point3D list" where
  "getInterpolatedCrossSection board x =
     (if length (bd_couples board) = 0 then Inr []
      else
        let (prevIdx, nextIdx) = findSurrounding (bd_couples board) x 0 (0, 0);
            nextIdx = (if nextIdx = 0 then length (bd_couples board) - 1 else nextIdx);
            cs1 = bd_couples board ! prevIdx;
            cs2 = bd_couples board ! nextIdx;
            x1 = firstXOr cs1 (Fin 0);
            x2 = firstXOr cs2 (bd_length board);
            t = (if \<not> strict_eq x2 x1 then (x - x1) / (x2 - x1) else Fin 0);
            targetWidth = getWidthAtX board x;
            targetThickness = getThicknessAtX board x;
            cs1Points = generateScaledCrossSection cs1 targetWidth targetThickness;
            cs2Points = generateScaledCrossSection cs2 targetWidth targetThickness;
            numPoints = max (length cs1Points) (length cs2Points)
        in forEach
             (\<lambda>i result.
                let idx1 = min (int i) (int (length cs1Points) - 1);
                    idx2 = min (int i) (int (length cs2Points) - 1)
                in case (arrayGet cs1Points idx1, arrayGet cs2Points idx2) of
                     (Some p1, Some p2) \<Rightarrow>
                       Inr (result @ [\<lparr> pt_x = x,
                                         pt_y = pt_y p1 * (Fin 1 - t) + pt_y p2 * t,
                                         pt_z = pt_z p1 * (Fin 1 - t) + pt_z p2 * t,
                                         pt_u = Fin 0,
                                         pt_color = Fin 0 \<rparr>])
                   | _ \<Rightarrow> Inl TypeError)
             [0..<numPoints] [])"

text \<open>
  \<^verbatim>\<open>getPointOnCrossSection\<close>. The clamped index is a whole number between 0 and the
  last index unless it is NaN; then the read gives \<^verbatim>\<open>undefined\<close> (\<open>None\<close>).
\<close>

definition getPointOnCrossSection :: "Point3D list \<Rightarrow> number \<Rightarrow> number \<Rightarrow> Point3D option" where
  "getPointOnCrossSection crossSection angle x =
     (if length crossSection = 0 then
        Some \<lparr> pt_x = x, pt_y = Fin 0, pt_z = Fin 0, pt_u = Fin 0, pt_color = Fin 0 \<rparr>
      else
        let s = angle / (Fin 2 * Fin pi);
            idx = math_floor (s * Fin (real (length crossSection - 1)));
            clampedIdx = math_max (Fin 0) (math_min idx (Fin (real (length crossSection - 1))))
        in case clampedIdx of
             Fin r \<Rightarrow> if r = of_int \<lfloor>r\<rfloor> then arrayGet crossSection \<lfloor>r\<rfloor> else None
           | _ \<Rightarrow> None)"

text \<open>
  \<^verbatim>\<open>generateMeshSLinearInterpolation\<close>. The state of its loops is the three
  buffers \<^verbatim>\<open>(vertices, normals, uvs)\<close>. \<open>collapsesRow\<close> is the test
  \<^verbatim>\<open>widthAtX <= 0.1\<close> that collapses a row to one centerline point.
\<close>

type_synonym buffers = "number list \<times> number list \<times> number list"

definition rowPosition :: "number \<Rightarrow> number \<Rightarrow> nat \<Rightarrow> nat \<Rightarrow> number" where
  "rowPosition minX actualLength uSteps i =
     (let u = Fin (real i) / Fin (real uSteps);
          uAdjusted =
            (if u < Fin 0.5 then
               (let t = u * Fin 2
                in Fin 0.5 * (t * t * (Fin 3 - Fin 2 * t)))
             else
               (let t = (u - Fin 0.5) * Fin 2;
                    smoothed = t * t * (Fin 3 - Fin 2 * t)
                in Fin 0.5 + Fin 0.5 * smoothed))
      in minX + uAdjusted * actualLength)"

definition collapsesRow :: "Board \<Rightarrow> number \<Rightarrow> bool" where
  "collapsesRow board x = (getWidthAtX board x \<le> Fin 0.1)"

definition pushVertex :: "number \<Rightarrow> number \<Rightarrow> number \<Rightarrow> number \<Rightarrow> number \<Rightarrow> buffers \<Rightarrow> buffers" where
  "pushVertex px py pz u v st =
     (case st of (vertices, normals, uvs) \<Rightarrow>
        (vertices @ [px * Fin 0.01, pz * Fin 0.01, py * Fin 0.01],
         normals @ [Fin 0, Fin 0, Fin 1],
         uvs @ [u, v]))"

definition surfaceRow :: "Board \<Rightarrow> number \<Rightarrow> number \<Rightarrow> nat \<Rightarrow> nat \<Rightarrow> nat \<Rightarrow> buffers \<Rightarrow> error + buffers" where
  "surfaceRow board minX actualLength uSteps vSteps i st =
     (let u = Fin (real i) / Fin (real uSteps);
          x = rowPosition minX actualLength uSteps i
      in if collapsesRow board x then
           (let rockerAtX = getBottomAtX board x;
                thicknessAtX = getThicknessAtX board x
            in forEach
                 (\<lambda>j st. let v = Fin (real j) / Fin (real vSteps)
                          in Inr (pushVertex x (Fin 0) (rockerAtX + (thicknessAtX * Fin 0.5)) u v st))
                 [0..<Suc vSteps] st)
         else
           (case getInterpolatedCrossSection board x of
              Inl e \<Rightarrow> Inl e
            | Inr crossSection \<Rightarrow>
                forEach
                  (\<lambda>j st.
                     let v = Fin (real j) / Fin (real vSteps);
                         angle = v * Fin 2 * Fin pi
                     in case getPointOnCrossSection crossSection angle x of
                          None \<Rightarrow> Inl TypeError
                        | Some csPoint \<Rightarrow>
                            (let rockerAtX = getBottomAtX board x;
                                 thicknessAtX = getThicknessAtX board x
                             in Inr (pushVertex x (pt_y csPoint)
                                       (pt_z csPoint + rockerAtX + (thicknessAtX * Fin 0.5)) u v st)))
                  [0..<Suc vSteps] st))"

definition generateMeshSLinearInterpolation :: "Shape3DDesign \<Rightarrow> error + Mesh" where
  "generateMeshSLinearInterpolation design =
     (let board = dsn_board design;
          uSteps = 40;
          vSteps = 32;
          outlinePoints = arrayPoints (generateBezierPoints (bd_otl board) 400);
          (minX, maxX) =
            (if 0 < length outlinePoints then
               (math_min_list (map pt_x outlinePoints), math_max_list (map pt_x outlinePoints))
             else (Fin 0, bd_length board));
          extension = Fin 2;
          minX = minX - extension;
          maxX = maxX + extension;
          actualLength = maxX - minX
      in case forEach (surfaceRow board minX actualLength uSteps vSteps) [0..<Suc uSteps] ([], [], []) of
           Inl e \<Rightarrow> Inl e
         | Inr (vertices, normals, uvs) \<Rightarrow>
             Inr (Mesh (BufferGeometry vertices normals uvs (generateTriangles [] uSteps vSteps))
                       (MeshPhongMaterial 16777215 (Some (Fin 30)) (Some DoubleSide))))"

definition generateMeshSimpleInterpolation :: "Shape3DDesign \<Rightarrow> Mesh" where
  "generateMeshSimpleInterpolation design =
     Mesh (BoxGeometry (Fin 2) (Fin 0.5) (Fin 0.1)) (MeshPhongMaterial 16751001 None None)"

text \<open>
  \<^verbatim>\<open>generateMesh\<close>. Its argument is \<open>None\<close> when the design or its board is
  missing (\<^verbatim>\<open>!design?.board\<close>); a design of the declared type always has its
  \<^verbatim>\<open>couples\<close> array.
\<close>

definition generateMesh :: "Shape3DDesign option \<Rightarrow> error + Mesh" where
  "generateMesh design =
     (case design of
        None \<Rightarrow> Inl (Error ''Invalid design data: missing board information'')
      | Some d \<Rightarrow>
          (let board = dsn_board d
           in if 0 < length (bd_couples board) then generateMeshSLinearInterpolation d
              else Inr (generateMeshSimpleInterpolation d)))"

section \<open>Format decoder (S3DXParser)\<close>

text \<open>
  The decoder reads the document through the DOM. A node of the parsed document is a
  text node or an element with its tag name and child nodes; comments, processing
  instructions and attributes are dropped, since the decoder never observes them. An
  element is handled together with the tag names of its ancestors in the document
  (outermost first): a selector with a descendant combinator (\<^verbatim>\<open>'Otl Bezier3d'\<close>) and
  \<^verbatim>\<open>closest\<close> look at ancestors outside the element they are called on.

  \<^verbatim>\<open>querySelector(tag)\<close> is the first descendant element with that tag name in
  document order, \<open>querySelectorIn outer tag\<close> is \<^verbatim>\<open>querySelector('outer tag')\<close>,
  and \<open>closest tag e\<close> says whether \<^verbatim>\<open>e.closest(tag)\<close> is an element.
\<close>

datatype node = Text string | Element string "node list"

type_synonym element = "string list \<times> node"

fun tagName :: "node \<Rightarrow> string" where
  "tagName (Element tag kids) = tag"
| "tagName (Text s) = []"

fun isElement :: "node \<Rightarrow> bool" where
  "isElement (Element tag kids) = True"
| "isElement (Text s) = False"

fun textContent :: "node \<Rightarrow> string" where
  "textContent (Text s) = s"
| "textContent (Element tag kids) = concat (map textContent kids)"

fun subtree :: "string list \<Rightarrow> node \<Rightarrow> element list" where
  "subtree anc (Text s) = []"
| "subtree anc (Element tag kids) =
     (anc, Element tag kids) # concat (map (subtree (anc @ [tag])) kids)"

definition descendants :: "element \<Rightarrow> element list" where
  "descendants e = tl (subtree (fst e) (snd e))"

definition children :: "element \<Rightarrow> element list" where
  "children e =
     (case snd e of
        Element tag kids \<Rightarrow> map (\<lambda>k. (fst e @ [tag], k)) (filter isElement kids)
      | Text s \<Rightarrow> [])"

definition querySelector :: "string \<Rightarrow> element \<Rightarrow> element option" where
  "querySelector tag e = find (\<lambda>d. tagName (snd d) = tag) (descendants e)"

definition querySelectorIn :: "string \<Rightarrow> string \<Rightarrow> element \<Rightarrow> element option" where
  "querySelectorIn outer tag e =
     find (\<lambda>d. tagName (snd d) = tag \<and> outer \<in> set (fst d)) (descendants e)"

definition querySelectorAll :: "string \<Rightarrow> element \<Rightarrow> element list" where
  "querySelectorAll tag e = filter (\<lambda>d. tagName (snd d) = tag) (descendants e)"

definition closest :: "string \<Rightarrow> element \<Rightarrow> bool" where
  "closest tag e = (tagName (snd e) = tag \<or> tag \<in> set (fst e))"

text \<open>
  The template literals \<^verbatim>\<open>`Control_type_point_${i}`\<close> print the loop counter in
  decimal. The probing loops \<^verbatim>\<open>while (true)\<close> of \<^verbatim>\<open>parseBezier3D\<close> stop at the
  first index whose element is missing; they terminate because the tag names of
  different indices differ and the document is finite.
\<close>

definition digit :: "nat \<Rightarrow> char" where
  "digit d = ''0123456789'' ! d"

fun decimal :: "nat \<Rightarrow> string" where
  "decimal n = (if n < 10 then [digit n] else decimal (n div 10) @ [digit (n mod 10)])"

declare decimal.simps [simp del]

lemma digit_inj: "d < 10 \<Longrightarrow> e < 10 \<Longrightarrow> digit d = digit e \<Longrightarrow> d = e"
proof -
  have "distinct ''0123456789''" by simp
  moreover have "length ''0123456789'' = 10" by simp
  ultimately show "d < 10 \<Longrightarrow> e < 10 \<Longrightarrow> digit d = digit e \<Longrightarrow> d = e"
    unfolding digit_def by (metis nth_eq_iff_index_eq)
qed

lemma decimal_nonempty: "decimal n \<noteq> []"
  by (subst decimal.simps) simp

lemma decimal_inj: "decimal n = decimal m \<Longrightarrow> n = m"
proof (induction n arbitrary: m rule: less_induct)
  case (less n)
  show ?case
  proof (cases "n < 10")
    case True
    show ?thesis
    proof (cases "m < 10")
      case m: True
      from less.prems True m have "digit n = digit m"
        by (simp add: decimal.simps[of n] decimal.simps[of m])
      then show ?thesis using True m digit_inj by blast
    next
      case m: False
      from less.prems True m have "[digit n] = decimal (m div 10) @ [digit (m mod 10)]"
        by (simp add: decimal.simps[of n] decimal.simps[of m])
      then show ?thesis using decimal_nonempty[of "m div 10"] by (cases "decimal (m div 10)") auto
    qed
  next
    case False
    show ?thesis
    proof (cases "m < 10")
      case m: True
      from less.prems False m have "decimal (n div 10) @ [digit (n mod 10)] = [digit m]"
        by (simp add: decimal.simps[of n] decimal.simps[of m])
      then show ?thesis using decimal_nonempty[of "n div 10"] by (cases "decimal (n div 10)") auto
    next
      case m: False
      from less.prems False m
      have eq: "decimal (n div 10) = decimal (m div 10)" "digit (n mod 10) = digit (m mod 10)"
        by (simp_all add: decimal.simps[of n] decimal.simps[of m])
      have "n div 10 = m div 10" using less.IH[of "n div 10" "m div 10"] eq(1) False by simp
      moreover have "n mod 10 = m mod 10" using digit_inj[of "n mod 10" "m mod 10"] eq(2) by simp
      ultimately show ?thesis by (metis div_mult_mod_eq)
    qed
  qed
qed

lemma find_Some_set: "find P xs = Some y \<Longrightarrow> y \<in> set xs \<and> P y"
  by (induction xs) (auto split: if_splits)

lemma querySelector_probe_finite:
  "finite {j. querySelector (pre @ decimal j) e \<noteq> None}"
proof -
  let ?tags = "(\<lambda>d. tagName (snd d)) ` set (descendants e)"
  have "inj (\<lambda>j. pre @ decimal j)"
    by (rule injI) (simp add: decimal_inj)
  then have "finite ((\<lambda>j. pre @ decimal j) -` ?tags)"
    by (intro finite_vimageI) auto
  moreover have "{j. querySelector (pre @ decimal j) e \<noteq> None} \<subseteq> (\<lambda>j. pre @ decimal j) -` ?tags"
  proof
    fix j
    assume "j \<in> {j. querySelector (pre @ decimal j) e \<noteq> None}"
    then obtain d where "find (\<lambda>d. tagName (snd d) = pre @ decimal j) (descendants e) = Some d"
      by (auto simp: querySelector_def)
    then have "d \<in> set (descendants e)" and "tagName (snd d) = pre @ decimal j"
      using find_Some_set by fastforce+
    then have "pre @ decimal j \<in> ?tags" by force
    then show "j \<in> (\<lambda>j. pre @ decimal j) -` ?tags" by simp
  qed
  ultimately show ?thesis by (rule rev_finite_subset)
qed

function probeIndexed :: "(element \<Rightarrow> 'a) \<Rightarrow> element \<Rightarrow> string \<Rightarrow> nat \<Rightarrow> 'a list" where
  "probeIndexed f element pre i =
     (case querySelector (pre @ decimal i) element of
        None \<Rightarrow> []
      | Some el \<Rightarrow> f el # probeIndexed f element pre (Suc i))"
  by pat_completeness auto
termination
proof (relation "measure (\<lambda>(f, element, pre, i). card {j. i \<le> j \<and> querySelector (pre @ decimal j) element \<noteq> None})")
  show "wf (measure (\<lambda>(f, element, pre, i). card {j. i \<le> j \<and> querySelector (pre @ decimal j) element \<noteq> None}))"
    by simp
next
  fix f :: "element \<Rightarrow> 'a" and element pre i el
  assume found: "querySelector (pre @ decimal i) element = Some el"
  let ?S = "\<lambda>i. {j. i \<le> j \<and> querySelector (pre @ decimal j) element \<noteq> None}"
  have fin: "finite (?S i)"
    using querySelector_probe_finite[of pre element] by (rule rev_finite_subset) auto
  have "?S (Suc i) \<subset> ?S i"
    using found by (auto simp: Suc_le_eq)
  then have "card (?S (Suc i)) < card (?S i)"
    using fin by (rule psubset_card_mono[rotated])
  then show "((f, element, pre, Suc i), (f, element, pre, i))
      \<in> measure (\<lambda>(f, element, pre, i). card {j. i \<le> j \<and> querySelector (pre @ decimal j) element \<noteq> None})"
    by simp
qed

text \<open>
  The functions of the platform that the decoder calls are parameters of the model:
  the global \<^verbatim>\<open>parseFloat(s)\<close> and \<^verbatim>\<open>parseInt(s, 10)\<close>, \<^verbatim>\<open>String.prototype.trim\<close>,
  and \<^verbatim>\<open>new DOMParser().parseFromString(s, 'text/xml')\<close>, which gives the root of
  the parsed document or raises.
\<close>

record builtins =
  js_parseFloat :: "string \<Rightarrow> number"
  js_parseInt :: "string \<Rightarrow> number"
  js_trim :: "string \<Rightarrow> string"
  dom_parseFromString :: "string \<Rightarrow> error + node"

definition parseFloat :: "builtins \<Rightarrow> string \<Rightarrow> number" where
  "parseFloat js s = (let val = js_parseFloat js s in if val = NaN then Fin 0 else val)"

definition parseInt :: "builtins \<Rightarrow> string \<Rightarrow> number" where
  "parseInt js s = (let val = js_parseInt js s in if val = NaN then Fin 0 else val)"

definition getElementText :: "builtins \<Rightarrow> element \<Rightarrow> string" where
  "getElementText js element =
     (let text = js_trim js (textContent (snd element)) in if text = [] then [] else text)"

definition getChildText :: "builtins \<Rightarrow> element \<Rightarrow> string \<Rightarrow> string" where
  "getChildText js parent tag =
     (case querySelector tag parent of
        Some child \<Rightarrow> getElementText js child
      | None \<Rightarrow> [])"

definition parsePoint3D :: "builtins \<Rightarrow> element \<Rightarrow> Point3D" where
  "parsePoint3D js element =
     \<lparr> pt_x = parseFloat js (getChildText js element ''x''),
       pt_y = parseFloat js (getChildText js element ''y''),
       pt_z = parseFloat js (getChildText js element ''z''),
       pt_u = parseFloat js (getChildText js element ''u''),
       pt_color = parseInt js (getChildText js element ''color'') \<rparr>"

definition zeroPoint :: Point3D where
  "zeroPoint = \<lparr> pt_x = Fin 0, pt_y = Fin 0, pt_z = Fin 0, pt_u = Fin 0, pt_color = Fin 0 \<rparr>"

definition parsePolygon3D :: "builtins \<Rightarrow> element \<Rightarrow> Polygon3D" where
  "parsePolygon3D js element =
     (let symmetryCenter =
            (case querySelectorIn ''Symmetry_center'' ''Point3d'' element of
               Some symmetryCenterEl \<Rightarrow> parsePoint3D js symmetryCenterEl
             | None \<Rightarrow> zeroPoint);
          pts = map (parsePoint3D js)
                  (filter (\<lambda>pointEl. \<not> closest ''Symmetry_center'' pointEl)
                     (querySelectorAll ''Point3d'' element))
      in \<lparr> pg_nb_of_points = parseInt js (getChildText js element ''Nb_of_points''),
           pg_open = parseInt js (getChildText js element ''Open''),
           pg_symmetry = parseInt js (getChildText js element ''Symmetry''),
           pg_symmetry_center = symmetryCenter,
           pg_plan = parseInt js (getChildText js element ''Plan''),
           pg_points = pts \<rparr>)"

definition emptyPolygon :: Polygon3D where
  "emptyPolygon =
     \<lparr> pg_nb_of_points = Fin 0, pg_open = Fin 0, pg_symmetry = Fin 0,
       pg_symmetry_center = zeroPoint, pg_plan = Fin 0, pg_points = [] \<rparr>"

definition polygonIn :: "builtins \<Rightarrow> string \<Rightarrow> element \<Rightarrow> Polygon3D" where
  "polygonIn js outer element =
     (case querySelectorIn outer ''Polygone3d'' element of
        Some el \<Rightarrow> parsePolygon3D js el
      | None \<Rightarrow> emptyPolygon)"

definition parseBezier3D :: "builtins \<Rightarrow> element \<Rightarrow> Bezier3D" where
  "parseBezier3D js element =
     (let controlTypePoints =
            probeIndexed (\<lambda>ctpEl. parseInt js (getElementText js ctpEl)) element ''Control_type_point_'' 0;
          tangentTypePoints =
            probeIndexed (\<lambda>ttpEl. parseInt js (getElementText js ttpEl)) element ''Tangent_type_point_'' 0
      in \<lparr> bz_name = getChildText js element ''Name'',
           bz_degree = parseInt js (getChildText js element ''Degree''),
           bz_open = parseInt js (getChildText js element ''Open''),
           bz_symmetry = parseInt js (getChildText js element ''Symmetry''),
           bz_plan = parseInt js (getChildText js element ''Plan''),
           bz_control_points = polygonIn js ''Control_points'' element,
           bz_tangents_1 = polygonIn js ''Tangents_1'' element,
           bz_tangents_2 = polygonIn js ''Tangents_2'' element,
           bz_tangents_m = polygonIn js ''Tangents_m'' element,
           bz_control_type_points = controlTypePoints,
           bz_tangent_type_points = tangentTypePoints \<rparr>)"

definition emptyBezier :: Bezier3D where
  "emptyBezier =
     \<lparr> bz_name = [], bz_degree = Fin 0, bz_open = Fin 0, bz_symmetry = Fin 0, bz_plan = Fin 0,
       bz_control_points = emptyPolygon, bz_tangents_1 = emptyPolygon,
       bz_tangents_2 = emptyPolygon, bz_tangents_m = emptyPolygon,
       bz_control_type_points = [], bz_tangent_type_points = [] \<rparr>"

definition parseCouple :: "builtins \<Rightarrow> element \<Rightarrow> Couple" where
  "parseCouple js element =
     \<lparr> cpl_dessus = parseInt js (getChildText js element ''Dessus''),
       cpl_dessous = parseInt js (getChildText js element ''Dessous''),
       cpl_displayed = parseInt js (getChildText js element ''Displayed''),
       cpl_bezier = (case querySelector ''Bezier3d'' element of
                       Some bezierEl \<Rightarrow> parseBezier3D js bezierEl
                     | None \<Rightarrow> emptyBezier) \<rparr>"

text \<open>
  The literal defaults of the source. It writes them out at each place of use
  (\<^verbatim>\<open>parseCamera\<close>, \<^verbatim>\<open>parseScene\<close>, \<^verbatim>\<open>parseS3DX\<close>), with the same values.
\<close>

definition defaultPoint :: Point3D where
  "defaultPoint = \<lparr> pt_x = Fin 0, pt_y = Fin 0, pt_z = Fin 0, pt_u = Fin (- 1), pt_color = Fin 0 \<rparr>"

definition defaultView :: View where
  "defaultView =
     \<lparr> vw_version = Fin 1.2, vw_wh = Fin 865, vw_ww = Fin 1896, vw_wox = Fin 0, vw_woy = Fin 0,
       vw_uh = Fin 0, vw_uw = Fin 0, vw_uxmin = Fin 0, vw_uymin = Fin 0, vw_cxy = Fin 0,
       vw_mrgx = Fin 0, vw_mrgy = Fin 0, vw_police = ''MS Sans Serif'',
       vw_over_sample = Fin 1, vw_grid = Fin 10 \<rparr>"

definition defaultCamera :: Camera where
  "defaultCamera =
     \<lparr> cam_version = Fin 1.2, cam_alpha = Fin 0, cam_dim_obj = Fin 208.287,
       cam_crot = defaultPoint, cam_cvis = defaultPoint,
       cam_ccam = defaultPoint\<lparr>pt_z := Fin (- 361.95)\<rparr>,
       cam_oy = defaultPoint\<lparr>pt_y := Fin 1\<rparr>,
       cam_ur = defaultPoint\<lparr>pt_z := Fin 1\<rparr>,
       cam_view = defaultView \<rparr>"

definition defaultLighting :: Lighting where
  "defaultLighting =
     \<lparr> lt_version = Fin 9,
       lt_ecl = defaultPoint\<lparr>pt_y := Fin (- 2082.87), pt_z := Fin (- 2082.87)\<rparr>,
       lt_color = Fin 16777215, lt_color_spot = Fin 16777215, lt_intensity = Fin 0.8,
       lt_intensity2 = Fin 0.625, lt_intensity_ambient = Fin 0.475, lt_intensity_spec = Fin 1 \<rparr>"

definition defaultScene :: Scene where
  "defaultScene =
     \<lparr> sc_version = Fin 1, sc_background_color = Fin 0, sc_lighting = defaultLighting,
       sc_camera = defaultCamera, sc_reflexion_map = [], sc_display_sky_box = Fin 0 \<rparr>"

definition parseView :: "builtins \<Rightarrow> element \<Rightarrow> View" where
  "parseView js element =
     \<lparr> vw_version = parseFloat js (getChildText js element ''Version''),
       vw_wh = parseFloat js (getChildText js element ''Wh''),
       vw_ww = parseFloat js (getChildText js element ''Ww''),
       vw_wox = parseFloat js (getChildText js element ''Wox''),
       vw_woy = parseFloat js (getChildText js element ''Woy''),
       vw_uh = parseFloat js (getChildText js element ''Uh''),
       vw_uw = parseFloat js (getChildText js element ''Uw''),
       vw_uxmin = parseFloat js (getChildText js element ''Uxmin''),
       vw_uymin = parseFloat js (getChildText js element ''Uymin''),
       vw_cxy = parseFloat js (getChildText js element ''Cxy''),
       vw_mrgx = parseFloat js (getChildText js element ''Mrgx''),
       vw_mrgy = parseFloat js (getChildText js element ''Mrgy''),
       vw_police = getChildText js element ''Police'',
       vw_over_sample = parseInt js (getChildText js element ''OverSample''),
       vw_grid = parseFloat js (getChildText js element ''Grid'') \<rparr>"

definition pointIn :: "builtins \<Rightarrow> string \<Rightarrow> element \<Rightarrow> Point3D \<Rightarrow> Point3D" where
  "pointIn js outer element dflt =
     (case querySelectorIn outer ''Point3d'' element of
        Some el \<Rightarrow> parsePoint3D js el
      | None \<Rightarrow> dflt)"

definition parseCamera :: "builtins \<Rightarrow> element \<Rightarrow> Camera" where
  "parseCamera js element =
     \<lparr> cam_version = parseFloat js (getChildText js element ''Version''),
       cam_alpha = parseFloat js (getChildText js element ''Alpha''),
       cam_dim_obj = parseFloat js (getChildText js element ''DimObj''),
       cam_crot = pointIn js ''Crot'' element defaultPoint,
       cam_cvis = pointIn js ''Cvis'' element defaultPoint,
       cam_ccam = pointIn js ''Ccam'' element (defaultPoint\<lparr>pt_z := Fin (- 361.95)\<rparr>),
       cam_oy = pointIn js ''Oy'' element (defaultPoint\<lparr>pt_y := Fin 1\<rparr>),
       cam_ur = pointIn js ''Ur'' element (defaultPoint\<lparr>pt_z := Fin 1\<rparr>),
       cam_view = (case querySelector ''View'' element of
                     Some el \<Rightarrow> parseView js el
                   | None \<Rightarrow> defaultView) \<rparr>"

definition parseLighting :: "builtins \<Rightarrow> element \<Rightarrow> Lighting" where
  "parseLighting js element =
     \<lparr> lt_version = parseFloat js (getChildText js element ''Version''),
       lt_ecl = pointIn js ''Ecl'' element
                  (defaultPoint\<lparr>pt_y := Fin (- 2082.87), pt_z := Fin (- 2082.87)\<rparr>),
       lt_color = parseInt js (getChildText js element ''Color''),
       lt_color_spot = parseInt js (getChildText js element ''ColorSpot''),
       lt_intensity = parseFloat js (getChildText js element ''Intensity''),
       lt_intensity2 = parseFloat js (getChildText js element ''Intensity2''),
       lt_intensity_ambient = parseFloat js (getChildText js element ''IntensityAmbient''),
       lt_intensity_spec = parseFloat js (getChildText js element ''IntensitySpec'') \<rparr>"

definition parseScene :: "builtins \<Rightarrow> element \<Rightarrow> Scene" where
  "parseScene js element =
     \<lparr> sc_version = parseFloat js (getChildText js element ''Version''),
       sc_background_color = parseInt js (getChildText js element ''Background_color''),
       sc_lighting = (case querySelector ''Lighting'' element of
                        Some el \<Rightarrow> parseLighting js el
                      | None \<Rightarrow> defaultLighting),
       sc_camera = (case querySelector ''Camera'' element of
                      Some el \<Rightarrow> parseCamera js el
                    | None \<Rightarrow> defaultCamera),
       sc_reflexion_map = getChildText js element ''ReflexionMap'',
       sc_display_sky_box = parseInt js (getChildText js element ''DisplaySkyBox'') \<rparr>"

definition bezierIn :: "builtins \<Rightarrow> string \<Rightarrow> element \<Rightarrow> Bezier3D" where
  "bezierIn js outer element =
     (case querySelectorIn outer ''Bezier3d'' element of
        Some el \<Rightarrow> parseBezier3D js el
      | None \<Rightarrow> emptyBezier)"

definition parseBoard :: "builtins \<Rightarrow> element \<Rightarrow> Board" where
  "parseBoard js element =
     (let cps = map (parseCouple js)
                  (filter (\<lambda>child. prefix ''Couples_'' (tagName (snd child))) (children element))
      in \<lparr> bd_version = parseInt js (getChildText js element ''Version''),
           bd_version_number = getChildText js element ''VersionNumber'',
           bd_name = getChildText js element ''Name'',
           bd_author = getChildText js element ''Author'',
           bd_comment = getChildText js element ''Comment'',
           bd_variation = getChildText js element ''Variation'',
           bd_category = getChildText js element ''Category'',
           bd_category_type = getChildText js element ''CategoryType'',
           bd_construction = getChildText js element ''Construction'',
           bd_rider_name = getChildText js element ''RiderName'',
           bd_rider_weight = parseFloat js (getChildText js element ''RiderWeight''),
           bd_length = parseFloat js (getChildText js element ''Length''),
           bd_length_dev = parseFloat js (getChildText js element ''LengthDev''),
           bd_width = parseFloat js (getChildText js element ''Width''),
           bd_thickness = parseFloat js (getChildText js element ''Thickness''),
           bd_tail_rocker = parseFloat js (getChildText js element ''Tail_rocker''),
           bd_nose_rocker = parseFloat js (getChildText js element ''Nose_rocker''),
           bd_volume = parseFloat js (getChildText js element ''Volume'') / Fin 100,
           bd_surface_proj = parseFloat js (getChildText js element ''SurfaceProj''),
           bd_volume_tail = parseFloat js (getChildText js element ''VolumeTail'') / Fin 100,
           bd_volume_nose = parseFloat js (getChildText js element ''VolumeNose'') / Fin 100,
           bd_surface_proj_tail = parseFloat js (getChildText js element ''SurfaceProjTail''),
           bd_surface_proj_nose = parseFloat js (getChildText js element ''SurfaceProjNose''),
           bd_otl = bezierIn js ''Otl'' element,
           bd_str_bot = bezierIn js ''StrBot'' element,
           bd_str_deck = bezierIn js ''StrDeck'' element,
           bd_number_of_slices = parseInt js (getChildText js element ''Number_of_slices''),
           bd_couples = cps,
           bd_color = parseInt js (getChildText js element ''Color''),
           bd_color_bot = parseInt js (getChildText js element ''ColorBot''),
           bd_color_rail = parseInt js (getChildText js element ''ColorRail'') \<rparr>)"

text \<open>
  \<^verbatim>\<open>parseS3DX\<close>. \<open>parseS3DX_try\<close> is the body of its \<^verbatim>\<open>try\<close> block, with the two
  \<^verbatim>\<open>throw\<close> statements and whatever the platform's parser raises as \<open>Inl\<close>;
  \<open>parseS3DX\<close> is the whole function: the \<^verbatim>\<open>catch\<close> logs the exception and
  returns \<^verbatim>\<open>null\<close> (\<open>None\<close>).
\<close>

definition document_querySelector :: "string \<Rightarrow> node \<Rightarrow> element option" where
  "document_querySelector tag doc = find (\<lambda>d. tagName (snd d) = tag) (subtree [] doc)"

definition parseS3DX_try :: "builtins \<Rightarrow> string \<Rightarrow> error + Shape3DDesign" where
  "parseS3DX_try js xmlContent =
     (case dom_parseFromString js xmlContent of
        Inl e \<Rightarrow> Inl e
      | Inr doc \<Rightarrow>
          (case document_querySelector ''Shape3d_design'' doc of
             None \<Rightarrow> Inl (Error ''No Shape3d_design element found'')
           | Some rootElement \<Rightarrow>
               (let boardElement = querySelector ''Board'' rootElement;
                    sceneElement = querySelector ''Scene'' rootElement
                in case boardElement of
                     None \<Rightarrow> Inl (Error ''No Board element found'')
                   | Some boardEl \<Rightarrow>
                       Inr \<lparr> dsn_board = parseBoard js boardEl,
                             dsn_scene = (case sceneElement of
                                            Some sceneEl \<Rightarrow> parseScene js sceneEl
                                          | None \<Rightarrow> defaultScene) \<rparr>)))"

definition parseS3DX :: "builtins \<Rightarrow> string \<Rightarrow> Shape3DDesign option" where
  "parseS3DX js xmlContent =
     (case parseS3DX_try js xmlContent of
        Inl e \<Rightarrow> None
      | Inr design \<Rightarrow> Some design)"

section \<open>Sample sequences of the specification\<close>

text \<open>
  The sample sequences the specification describes, for comparison with the arrays
  the loops of \<^verbatim>\<open>generateBezierPoints\<close> fill. \<open>segmentSamples ev m j0\<close> are the
  samples \<open>j0, \<dots>, m - 1\<close> of a segment of \<open>m\<close> samples: the parameter steps from 0 to
  1 inclusive when \<open>m > 1\<close>, else the single sample is at 0. \<open>segmentBudget n k seg\<close>
  is the number of samples of segment \<open>seg\<close> out of \<open>k\<close>: \<open>n div k\<close> each, the
  last segment taking the remainder. \<open>arr n ws\<close> is the array of \<open>n\<close> slots whose
  first slots hold \<open>ws\<close>, with the write position after them.
\<close>

definition arr :: "nat \<Rightarrow> Point3D list \<Rightarrow> Point3D option list \<times> nat" where
  "arr n ws = (map Some ws @ replicate (n - length ws) None, length ws)"

definition segmentSamples :: "(number \<Rightarrow> Point3D) \<Rightarrow> nat \<Rightarrow> nat \<Rightarrow> Point3D list" where
  "segmentSamples ev m j0 = map (\<lambda>j. ev (if 1 < m then Fin (real j) / Fin (real (m - 1)) else Fin 0)) [j0..<m]"

definition segmentBudget :: "nat \<Rightarrow> nat \<Rightarrow> nat \<Rightarrow> nat" where
  "segmentBudget n k seg = (if seg = k - 1 then n - (k - 1) * (n div k) else n div k)"

definition segmentedSamples :: "(nat \<Rightarrow> number \<Rightarrow> Point3D) \<Rightarrow> nat \<Rightarrow> nat \<Rightarrow> Point3D list" where
  "segmentedSamples ev n k =
     concat (map (\<lambda>seg. segmentSamples (ev seg) (segmentBudget n k seg) 0) [0..<k])"

definition uniformSamples :: "(number \<Rightarrow> Point3D) \<Rightarrow> nat \<Rightarrow> Point3D list" where
  "uniformSamples ev n = map (\<lambda>i. ev (Fin (real i) / Fin (real_of_int (int n - 1)))) [0..<n]"

definition cubicSegment :: "Bezier3D \<Rightarrow> nat \<Rightarrow> number \<Rightarrow> Point3D" where
  "cubicSegment bezier seg =
     evaluateCubicBezier (pg_points (bz_control_points bezier) ! seg) (pg_points (bz_tangents_2 bezier) ! seg)
       (pg_points (bz_tangents_1 bezier) ! (seg + 1)) (pg_points (bz_control_points bezier) ! (seg + 1))"

definition linearSegment :: "Bezier3D \<Rightarrow> nat \<Rightarrow> number \<Rightarrow> Point3D" where
  "linearSegment bezier seg =
     evaluateLinear (pg_points (bz_control_points bezier) ! seg) (pg_points (bz_control_points bezier) ! (seg + 1))"

text \<open>The indices that \<^verbatim>\<open>generateTriangles\<close> pushes for row \<open>i\<close> of the grid.\<close>

definition quadRow :: "nat \<Rightarrow> nat \<Rightarrow> nat list" where
  "quadRow vSteps i = concat (map (quadIndices vSteps i) [0..<vSteps])"

text \<open>
  The texture coordinates \<^verbatim>\<open>(u, v)\<close> of the \<open>vSteps + 1\<close> vertices of row \<open>i\<close>:
  \<open>(i / uSteps, j / vSteps)\<close> for each column \<open>j\<close>.
\<close>

definition rowUVs :: "nat \<Rightarrow> nat \<Rightarrow> nat \<Rightarrow> number list" where
  "rowUVs uSteps vSteps i =
     concat (map (\<lambda>j. [Fin (real i) / Fin (real uSteps), Fin (real j) / Fin (real vSteps)])
               [0..<Suc vSteps])"

section \<open>Concrete inputs\<close>

text \<open>
  Small inputs at which the theorems below are evaluated: a point with finite
  coordinates, and a curve with the given control points and tangent polygons
  (\<^verbatim>\<open>tangents_1\<close>, \<^verbatim>\<open>tangents_2\<close>), every other field as in the decoder's empty curve.
\<close>

definition pointAt :: "real \<Rightarrow> real \<Rightarrow> real \<Rightarrow> Point3D" where
  "pointAt a b c = \<lparr> pt_x = Fin a, pt_y = Fin b, pt_z = Fin c, pt_u = Fin 0, pt_color = Fin 0 \<rparr>"

definition curveOf :: "Point3D list \<Rightarrow> Point3D list \<Rightarrow> Point3D list \<Rightarrow> Bezier3D" where
  "curveOf cp t1 t2 =
     emptyBezier\<lparr> bz_control_points := emptyPolygon\<lparr>pg_points := cp\<rparr>,
                  bz_tangents_1 := emptyPolygon\<lparr>pg_points := t1\<rparr>,
                  bz_tangents_2 := emptyPolygon\<lparr>pg_points := t2\<rparr> \<rparr>"

text \<open>
  A board with the given outline and cross-sections and every other field zero or
  empty, as the decoder fills them for an empty \<^verbatim>\<open>Board\<close> element.
\<close>

definition boardOf :: "Bezier3D \<Rightarrow> Couple list \<Rightarrow> Board" where
  "boardOf outline cps =
     \<lparr> bd_version = Fin 0, bd_version_number = [], bd_name = [], bd_author = [], bd_comment = [],
       bd_variation = [], bd_category = [], bd_category_type = [], bd_construction = [],
       bd_rider_name = [], bd_rider_weight = Fin 0, bd_length = Fin 0, bd_length_dev = Fin 0,
       bd_width = Fin 0, bd_thickness = Fin 0, bd_tail_rocker = Fin 0, bd_nose_rocker = Fin 0,
       bd_volume = Fin 0, bd_surface_proj = Fin 0, bd_volume_tail = Fin 0, bd_volume_nose = Fin 0,
       bd_surface_proj_tail = Fin 0, bd_surface_proj_nose = Fin 0,
       bd_otl = outline, bd_str_bot = emptyBezier, bd_str_deck = emptyBezier,
       bd_number_of_slices = Fin 0, bd_couples = cps,
       bd_color = Fin 0, bd_color_bot = Fin 0, bd_color_rail = Fin 0 \<rparr>"

text \<open>A cross-section with the given curve.\<close>

definition coupleOf :: "Bezier3D \<Rightarrow> Couple" where
  "coupleOf bz = \<lparr> cpl_dessus = Fin 0, cpl_dessous = Fin 0, cpl_displayed = Fin 0, cpl_bezier = bz \<rparr>"

text \<open>
  A platform whose document parser yields the given document, whose \<^verbatim>\<open>trim\<close> finds
  nothing to strip and whose number parsers find no number: the documents used below
  have no text, and \<^verbatim>\<open>parseFloat('')\<close> and \<^verbatim>\<open>parseInt('', 10)\<close> are NaN.
\<close>

definition platformWith :: "node \<Rightarrow> builtins" where
  "platformWith doc =
     \<lparr> js_parseFloat = (\<lambda>s. NaN), js_parseInt = (\<lambda>s. NaN), js_trim = (\<lambda>s. s),
       dom_parseFromString = (\<lambda>s. Inr doc) \<rparr>"

section \<open>Properties of the curve evaluator\<close>

lemma arr_update:
  "length ws < n \<Longrightarrow> (map Some ws @ replicate (n - length ws) None)[length ws := Some v]
     = map Some (ws @ [v]) @ replicate (n - Suc (length ws)) None"
proof -
  assume "length ws < n"
  then obtain k where k: "n - length ws = Suc k" "n - Suc (length ws) = k"
    by (metis Suc_diff_Suc diff_Suc_Suc)
  show ?thesis
    by (simp add: k list_update_append)
qed

lemma fillSegment_arr:
  "j \<le> m \<Longrightarrow> length ws + (m - j) \<le> n \<Longrightarrow>
   fillSegment ev n m j (arr n ws) = arr n (ws @ segmentSamples ev m j)"
proof (induction "m - j" arbitrary: j ws)
  case 0
  then show ?case by (simp add: arr_def segmentSamples_def)
next
  case (Suc d)
  then have jm: "j < m" and len: "length ws < n" by auto
  have step: "fillSegment ev n m j (arr n ws)
      = fillSegment ev n m (Suc j) (arr n (ws @ [ev (if 1 < m then Fin (real j) / Fin (real (m - 1)) else Fin 0)]))"
    using jm len by (simp add: arr_def arr_update del: fillSegment.simps add: fillSegment.simps[of ev n m j])
  have "fillSegment ev n m (Suc j) (arr n (ws @ [ev (if 1 < m then Fin (real j) / Fin (real (m - 1)) else Fin 0)]))
      = arr n ((ws @ [ev (if 1 < m then Fin (real j) / Fin (real (m - 1)) else Fin 0)]) @ segmentSamples ev m (Suc j))"
    using Suc by (intro Suc.hyps(1)) auto
  moreover have "segmentSamples ev m j = ev (if 1 < m then Fin (real j) / Fin (real (m - 1)) else Fin 0) # segmentSamples ev m (Suc j)"
    using jm by (simp add: segmentSamples_def upt_conv_Cons)
  ultimately show ?case using step by simp
qed

declare fillSegment.simps [simp del] fillSegments.simps [simp del] fillUniform.simps [simp del]

lemma length_segmentSamples [simp]: "length (segmentSamples ev m j) = m - j"
  by (simp add: segmentSamples_def)

lemma fillSegments_step:
  "seg < k \<Longrightarrow> fillSegments ev n k pps seg st
     = fillSegments ev n k pps (Suc seg)
         (fillSegment (ev seg) n (if seg = k - 1 then n - snd st else pps) 0 st)"
proof (cases st)
  case (Pair pts pointIdx)
  assume "seg < k"
  then show ?thesis unfolding Pair by (subst fillSegments.simps) simp
qed

lemma fillSegments_done: "\<not> seg < k \<Longrightarrow> fillSegments ev n k pps seg st = st"
proof (cases st)
  case (Pair pts pointIdx)
  assume "\<not> seg < k"
  then show ?thesis unfolding Pair by (subst fillSegments.simps) simp
qed

lemma snd_arr [simp]: "snd (arr n ws) = length ws"
  by (simp add: arr_def)

lemma fillSegments_arr:
  "seg < k \<Longrightarrow> length ws + (k - 1 - seg) * pps \<le> n \<Longrightarrow>
   fillSegments ev n k pps seg (arr n ws)
     = arr n (ws @ concat (map (\<lambda>s. segmentSamples (ev s) pps 0) [seg..<k - 1])
                 @ segmentSamples (ev (k - 1)) (n - (length ws + (k - 1 - seg) * pps)) 0)"
proof (induction "k - 1 - seg" arbitrary: seg ws)
  case 0
  then have seg: "seg = k - 1" by simp
  have "fillSegments ev n k pps seg (arr n ws)
      = fillSegments ev n k pps (Suc seg) (fillSegment (ev seg) n (n - length ws) 0 (arr n ws))"
    using "0.prems"(1) seg by (simp add: fillSegments_step)
  also have "fillSegment (ev seg) n (n - length ws) 0 (arr n ws)
      = arr n (ws @ segmentSamples (ev seg) (n - length ws) 0)"
    using "0.prems"(2) by (intro fillSegment_arr) auto
  also have "fillSegments ev n k pps (Suc seg) (arr n (ws @ segmentSamples (ev seg) (n - length ws) 0))
      = arr n (ws @ segmentSamples (ev seg) (n - length ws) 0)"
    using seg "0.prems"(1) by (simp add: fillSegments_done)
  finally show ?case using seg by simp
next
  case (Suc d)
  then have seg: "seg < k - 1" "seg \<noteq> k - 1" by auto
  have "k - 1 - seg = Suc (k - 1 - Suc seg)" using seg by simp
  then have eq: "(k - 1 - seg) * pps = pps + (k - 1 - Suc seg) * pps" by simp
  have bound: "length ws + pps + (k - 1 - Suc seg) * pps \<le> n"
    using Suc.prems(2) eq by simp
  have "fillSegments ev n k pps seg (arr n ws)
      = fillSegments ev n k pps (Suc seg) (fillSegment (ev seg) n pps 0 (arr n ws))"
    using Suc.prems(1) seg by (simp add: fillSegments_step)
  also have "fillSegment (ev seg) n pps 0 (arr n ws) = arr n (ws @ segmentSamples (ev seg) pps 0)"
    using bound by (intro fillSegment_arr) auto
  also have "fillSegments ev n k pps (Suc seg) (arr n (ws @ segmentSamples (ev seg) pps 0))
      = arr n ((ws @ segmentSamples (ev seg) pps 0)
               @ concat (map (\<lambda>s. segmentSamples (ev s) pps 0) [Suc seg..<k - 1])
               @ segmentSamples (ev (k - 1)) (n - (length (ws @ segmentSamples (ev seg) pps 0) + (k - 1 - Suc seg) * pps)) 0)"
    using Suc.hyps(2) seg bound by (intro Suc.hyps(1)) auto
  finally show ?case using seg eq
    by (simp add: upt_conv_Cons add.assoc)
qed

lemma fillUniform_arr:
  "length ws \<le> n \<Longrightarrow>
   fillUniform ev n (length ws) (fst (arr n ws))
     = map Some (ws @ map (\<lambda>i. ev (Fin (real i) / Fin (real_of_int (int n - 1)))) [length ws..<n])"
proof (induction "n - length ws" arbitrary: ws)
  case 0
  then show ?case by (subst fillUniform.simps) (simp add: arr_def)
next
  case (Suc d)
  then have len: "length ws < n" by simp
  let ?v = "ev (Fin (real (length ws)) / Fin (real_of_int (int n - 1)))"
  have "fillUniform ev n (length ws) (fst (arr n ws))
      = fillUniform ev n (length (ws @ [?v])) (fst (arr n (ws @ [?v])))"
    using len by (subst fillUniform.simps) (simp add: arr_def arr_update Let_def)
  also have "\<dots> = map Some ((ws @ [?v]) @ map (\<lambda>i. ev (Fin (real i) / Fin (real_of_int (int n - 1)))) [length (ws @ [?v])..<n])"
    using Suc by (intro Suc.hyps(1)) auto
  finally show ?case using len by (simp add: upt_conv_Cons)
qed

lemma budget_bound: "0 < k \<Longrightarrow> (k - 1) * (n div k) \<le> (n::nat)"
proof -
  assume "0 < k"
  have "(k - 1) * (n div k) \<le> k * (n div k)" by (simp add: mult_le_mono1)
  also have "\<dots> \<le> n" by simp
  finally show ?thesis .
qed

lemma upt_last: "0 < k \<Longrightarrow> [0..<k] = [0..<k - 1] @ [k - 1]"
  by (metis Suc_diff_1 upt_Suc_append zero_le)

lemma segmentBudget_last: "segmentBudget n k (k - 1) = n - (k - 1) * (n div k)"
  by (simp add: segmentBudget_def)

lemma segmentBudget_inner: "seg < k - 1 \<Longrightarrow> segmentBudget n k seg = n div k"
  by (simp add: segmentBudget_def)

lemma segmentedSamples_split:
  assumes "0 < k"
  shows "segmentedSamples ev n k
     = concat (map (\<lambda>s. segmentSamples (ev s) (n div k) 0) [0..<k - 1])
       @ segmentSamples (ev (k - 1)) (n - (k - 1) * (n div k)) 0"
proof -
  let ?f = "\<lambda>seg. segmentSamples (ev seg) (segmentBudget n k seg) 0"
  have inner: "map ?f [0..<k - 1] = map (\<lambda>s. segmentSamples (ev s) (n div k) 0) [0..<k - 1]"
    by (rule map_cong) (simp_all add: segmentBudget_inner)
  have "segmentedSamples ev n k = concat (map ?f ([0..<k - 1] @ [k - 1]))"
    by (simp only: segmentedSamples_def upt_last[OF assms, symmetric])
  also have "\<dots> = concat (map ?f [0..<k - 1]) @ ?f (k - 1)"
    by simp
  finally show ?thesis
    by (simp only: inner segmentBudget_last)
qed

lemma sum_segmentBudget:
  assumes "0 < k"
  shows "sum_list (map (segmentBudget n k) [0..<k]) = n"
proof -
  have inner: "map (segmentBudget n k) [0..<k - 1] = map (\<lambda>s. n div k) [0..<k - 1]"
    by (rule map_cong) (simp_all add: segmentBudget_inner)
  have "sum_list (map (segmentBudget n k) [0..<k])
      = sum_list (map (segmentBudget n k) ([0..<k - 1] @ [k - 1]))"
    by (simp only: upt_last[OF assms, symmetric])
  also have "\<dots> = sum_list (map (segmentBudget n k) [0..<k - 1]) + segmentBudget n k (k - 1)"
    by simp
  also have "\<dots> = sum_list (map (\<lambda>s. n div k) [0..<k - 1]) + (n - (k - 1) * (n div k))"
    by (simp only: inner segmentBudget_last)
  also have "\<dots> = (k - 1) * (n div k) + (n - (k - 1) * (n div k))"
    by (simp add: sum_list_triv)
  finally show ?thesis using budget_bound[OF assms, of n] by simp
qed

lemma length_segmentedSamples: "0 < k \<Longrightarrow> length (segmentedSamples ev n k) = n"
proof -
  assume k: "0 < k"
  have "length (segmentedSamples ev n k) = sum_list (map (segmentBudget n k) [0..<k])"
    by (simp add: segmentedSamples_def length_concat comp_def)
  then show ?thesis using sum_segmentBudget[OF k] by simp
qed

lemma fillSegments_total:
  assumes "0 < k"
  shows "fst (fillSegments ev n k (n div k) 0 (replicate n None, 0)) = map Some (segmentedSamples ev n k)"
proof -
  have pre: "(replicate n None, 0) = arr n []" by (simp add: arr_def)
  have "fillSegments ev n k (n div k) 0 (arr n [])
      = arr n ([] @ concat (map (\<lambda>s. segmentSamples (ev s) (n div k) 0) [0..<k - 1])
                 @ segmentSamples (ev (k - 1)) (n - (length ([]::Point3D list) + (k - 1 - 0) * (n div k))) 0)"
    using assms budget_bound[OF assms, of n] by (intro fillSegments_arr) auto
  also have "\<dots> = arr n (segmentedSamples ev n k)"
    by (simp add: segmentedSamples_split[OF assms])
  finally have "fillSegments ev n k (n div k) 0 (replicate n None, 0) = arr n (segmentedSamples ev n k)"
    by (simp add: pre)
  then show ?thesis by (simp add: arr_def length_segmentedSamples[OF assms])
qed

lemma fillUniform_total:
  "fillUniform ev n 0 (replicate n None) = map Some (uniformSamples ev n)"
  using fillUniform_arr[of "[]" n ev] by (simp add: arr_def uniformSamples_def)

lemma tangents_or_empty: "(if 0 < length xs then xs else []) = xs"
  by simp

lemma generateBezierPoints_cubic_unfold:
  assumes "2 \<le> length (pg_points (bz_control_points bezier))"
    and "length (pg_points (bz_control_points bezier)) \<le> length (pg_points (bz_tangents_1 bezier))"
    and "length (pg_points (bz_control_points bezier)) \<le> length (pg_points (bz_tangents_2 bezier))"
  shows "generateBezierPoints bezier n
     = fst (fillSegments (cubicSegment bezier) n (length (pg_points (bz_control_points bezier)) - 1)
              (n div (length (pg_points (bz_control_points bezier)) - 1)) 0 (replicate n None, 0))"
proof -
  have c1: "\<not> length (pg_points (bz_control_points bezier)) < 2" using assms(1) by simp
  have c2: "2 \<le> length (pg_points (bz_control_points bezier))
      \<and> length (pg_points (bz_control_points bezier)) \<le> length (pg_points (bz_tangents_1 bezier))
      \<and> length (pg_points (bz_control_points bezier)) \<le> length (pg_points (bz_tangents_2 bezier))"
    using assms by simp
  show ?thesis
    unfolding generateBezierPoints_def Let_def tangents_or_empty if_not_P[OF c1] if_P[OF c2]
    by (simp add: cubicSegment_def[abs_def])
qed

lemma curveOf_simps [simp]:
  "pg_points (bz_control_points (curveOf cp t1 t2)) = cp"
  "pg_points (bz_tangents_1 (curveOf cp t1 t2)) = t1"
  "pg_points (bz_tangents_2 (curveOf cp t1 t2)) = t2"
  by (simp_all add: curveOf_def emptyBezier_def emptyPolygon_def)

lemma generateBezierPoints_uniform_linear:
  assumes "length (pg_points (bz_control_points bezier)) = 2"
    and "\<not> (2 \<le> length (pg_points (bz_tangents_1 bezier)) \<and> 2 \<le> length (pg_points (bz_tangents_2 bezier)))"
  shows "generateBezierPoints bezier n
     = map Some (uniformSamples (evaluateLinear (pg_points (bz_control_points bezier) ! 0)
                                               (pg_points (bz_control_points bezier) ! 1)) n)"
proof -
  have c1: "\<not> length (pg_points (bz_control_points bezier)) < 2" using assms(1) by simp
  have c2: "\<not> (2 \<le> length (pg_points (bz_control_points bezier))
      \<and> length (pg_points (bz_control_points bezier)) \<le> length (pg_points (bz_tangents_1 bezier))
      \<and> length (pg_points (bz_control_points bezier)) \<le> length (pg_points (bz_tangents_2 bezier)))"
    using assms by simp
  have c3: "\<not> length (pg_points (bz_control_points bezier)) = 3" using assms(1) by simp
  show ?thesis
    unfolding generateBezierPoints_def Let_def tangents_or_empty if_not_P[OF c1] if_not_P[OF c2]
      if_not_P[OF c3] if_P[OF assms(1)]
    by (simp add: fillUniform_total)
qed

lemma number_less_le: "x < a \<Longrightarrow> a \<le> b \<Longrightarrow> x < (b::number)"
  by (cases x; cases a; cases b) auto

lemma number_le_less: "a \<le> b \<Longrightarrow> b < x \<Longrightarrow> a < (x::number)"
  by (cases x; cases a; cases b) auto

lemma number_less_not_le: "x < a \<Longrightarrow> \<not> a \<le> (x::number)"
  by (cases x; cases a) auto

declare interpolateZAtX_loop.simps [simp del]

lemma sorted_x_nth:
  "sorted_wrt (\<lambda>p q. pt_x p \<le> pt_x q) pts \<Longrightarrow> i < j \<Longrightarrow> j < length pts
     \<Longrightarrow> pt_x (pts ! i) \<le> pt_x (pts ! j)"
  by (rule sorted_wrt_nth_less)

lemma interpolateZAtX_loop_none:
  assumes "\<And>j. j + 1 < length pts \<Longrightarrow> \<not> (pt_x (pts ! j) \<le> x \<and> x \<le> pt_x (pts ! (j + 1)))"
  shows "interpolateZAtX_loop pts x i = None"
proof (induction "length pts - i" arbitrary: i)
  case 0
  then show ?case by (subst interpolateZAtX_loop.simps) simp
next
  case (Suc d)
  have "interpolateZAtX_loop pts x (Suc i) = None"
    using Suc by (intro Suc.hyps(1)) auto
  then show ?case
    using assms[of i] by (subst interpolateZAtX_loop.simps) auto
qed

lemma generateBezierPoints_uniform_quadratic:
  assumes "length (pg_points (bz_control_points bezier)) = 3"
    and "\<not> (3 \<le> length (pg_points (bz_tangents_1 bezier)) \<and> 3 \<le> length (pg_points (bz_tangents_2 bezier)))"
  shows "generateBezierPoints bezier n
     = map Some (uniformSamples (evaluateQuadraticBezier (pg_points (bz_control_points bezier) ! 0)
                   (pg_points (bz_control_points bezier) ! 1)
                   (pg_points (bz_control_points bezier) ! 2)) n)"
proof -
  have c1: "\<not> length (pg_points (bz_control_points bezier)) < 2" using assms(1) by simp
  have c2: "\<not> (2 \<le> length (pg_points (bz_control_points bezier))
      \<and> length (pg_points (bz_control_points bezier)) \<le> length (pg_points (bz_tangents_1 bezier))
      \<and> length (pg_points (bz_control_points bezier)) \<le> length (pg_points (bz_tangents_2 bezier)))"
    using assms by simp
  show ?thesis
    unfolding generateBezierPoints_def Let_def tangents_or_empty if_not_P[OF c1] if_not_P[OF c2]
      if_P[OF assms(1)]
    by (simp add: fillUniform_total)
qed

lemma generateBezierPoints_polyline:
  assumes "3 < length (pg_points (bz_control_points bezier))"
    and "\<not> (length (pg_points (bz_control_points bezier)) \<le> length (pg_points (bz_tangents_1 bezier))
           \<and> length (pg_points (bz_control_points bezier)) \<le> length (pg_points (bz_tangents_2 bezier)))"
  shows "generateBezierPoints bezier n
     = map Some (segmentedSamples (linearSegment bezier) n (length (pg_points (bz_control_points bezier)) - 1))"
proof -
  have c1: "\<not> length (pg_points (bz_control_points bezier)) < 2" using assms(1) by simp
  have c2: "\<not> (2 \<le> length (pg_points (bz_control_points bezier))
      \<and> length (pg_points (bz_control_points bezier)) \<le> length (pg_points (bz_tangents_1 bezier))
      \<and> length (pg_points (bz_control_points bezier)) \<le> length (pg_points (bz_tangents_2 bezier)))"
    using assms by simp
  have c3: "\<not> length (pg_points (bz_control_points bezier)) = 3" using assms(1) by simp
  have c4: "\<not> length (pg_points (bz_control_points bezier)) = 2" using assms(1) by simp
  have k: "0 < length (pg_points (bz_control_points bezier)) - 1" using assms(1) by simp
  have "generateBezierPoints bezier n
      = fst (fillSegments (linearSegment bezier) n (length (pg_points (bz_control_points bezier)) - 1)
               (n div (length (pg_points (bz_control_points bezier)) - 1)) 0 (replicate n None, 0))"
    unfolding generateBezierPoints_def Let_def tangents_or_empty if_not_P[OF c1] if_not_P[OF c2]
      if_not_P[OF c3] if_not_P[OF c4] if_P[OF assms(1)]
    by (simp add: linearSegment_def[abs_def])
  then show ?thesis by (simp only: fillSegments_total[OF k])
qed

lemma length_uniformSamples [simp]: "length (uniformSamples ev n) = n"
  by (simp add: uniformSamples_def)

lemma generateBezierPoints_filled:
  "\<exists>ws. generateBezierPoints bezier n = map Some ws
        \<and> length ws = (if length (pg_points (bz_control_points bezier)) < 2 then 0 else n)"
proof -
  let ?cp = "pg_points (bz_control_points bezier)"
  let ?cover = "length ?cp \<le> length (pg_points (bz_tangents_1 bezier))
                \<and> length ?cp \<le> length (pg_points (bz_tangents_2 bezier))"
  consider (degenerate) "length ?cp < 2"
    | (cubic) "2 \<le> length ?cp" "?cover"
    | (linear) "length ?cp = 2" "\<not> ?cover"
    | (quadratic) "length ?cp = 3" "\<not> ?cover"
    | (polyline) "3 < length ?cp" "\<not> ?cover"
    by linarith
  then show ?thesis
  proof cases
    case degenerate
    then show ?thesis by (simp add: generateBezierPoints_def)
  next
    case cubic
    then have "generateBezierPoints bezier n
        = map Some (segmentedSamples (cubicSegment bezier) n (length ?cp - 1))"
      using generateBezierPoints_cubic_unfold[of bezier n] fillSegments_total[of "length ?cp - 1" "cubicSegment bezier" n]
      by simp
    moreover have "length (segmentedSamples (cubicSegment bezier) n (length ?cp - 1)) = n"
      using cubic by (intro length_segmentedSamples) simp
    ultimately show ?thesis using cubic by auto
  next
    case linear
    then show ?thesis
      using generateBezierPoints_uniform_linear[of bezier n] by auto
  next
    case quadratic
    then show ?thesis
      using generateBezierPoints_uniform_quadratic[of bezier n] by auto
  next
    case polyline
    moreover have "length (segmentedSamples (linearSegment bezier) n (length ?cp - 1)) = n"
      using polyline by (intro length_segmentedSamples) simp
    ultimately show ?thesis
      using generateBezierPoints_polyline[of bezier n] by auto
  qed
qed

lemma generateBezierPoints_no_holes: "None \<notin> set (generateBezierPoints bezier n)"
  using generateBezierPoints_filled[of bezier n] by auto

lemma length_generateBezierPoints:
  "length (generateBezierPoints bezier n)
     = (if length (pg_points (bz_control_points bezier)) < 2 then 0 else n)"
  using generateBezierPoints_filled[of bezier n] by auto

lemma foldl_push: "foldl (\<lambda>acc j. acc @ f j) acc js = acc @ concat (map f js)"
  by (induction js arbitrary: acc) auto

lemma generateTriangles_concat:
  "generateTriangles indices uSteps vSteps = indices @ concat (map (quadRow vSteps) [0..<uSteps])"
  by (simp add: generateTriangles_def foldl_push quadRow_def[abs_def])

lemma length_quadIndices [simp]: "length (quadIndices vSteps i j) = 6"
  by (simp add: quadIndices_def Let_def)

lemma length_concat_blocks:
  "(\<And>i. i < n \<Longrightarrow> length (f i) = k) \<Longrightarrow> length (concat (map f [0..<n])) = n * k"
  by (induction n) auto

lemma block_of_concat:
  assumes "\<And>i. i < n \<Longrightarrow> length (f i) = k" and "m < n"
  shows "take k (drop (m * k) (concat (map f [0..<n]))) = f m"
proof -
  have split: "[0..<n] = [0..<m] @ m # [Suc m..<n]"
    using assms(2) by (metis le_add1 less_imp_add_positive upt_add_eq_append upt_conv_Cons zero_le add_0)
  have len: "length (concat (map f [0..<m])) = m * k"
    using assms by (intro length_concat_blocks) auto
  have "concat (map f [0..<n]) = concat (map f [0..<m]) @ f m @ concat (map f [Suc m..<n])"
    by (subst split) simp
  then show ?thesis using len assms by simp
qed

lemma length_quadRow [simp]: "length (quadRow vSteps i) = vSteps * 6"
  unfolding quadRow_def by (rule length_concat_blocks) simp

lemma platformWith_parse [simp]: "dom_parseFromString (platformWith doc) s = Inr doc"
  by (simp add: platformWith_def)

lemma bare_document_root:
  "document_querySelector ''Shape3d_design'' (Element ''Shape3d_design'' [Element ''Board'' []])
     = Some ([], Element ''Shape3d_design'' [Element ''Board'' []])"
  by (simp add: document_querySelector_def)

lemma bare_document_board:
  "querySelector ''Board'' ([], Element ''Shape3d_design'' [Element ''Board'' []])
     = Some ([''Shape3d_design''], Element ''Board'' [])"
  by (simp add: querySelector_def descendants_def)

lemma bare_document_scene:
  "querySelector ''Scene'' ([], Element ''Shape3d_design'' [Element ''Board'' []]) = None"
  by (simp add: querySelector_def descendants_def)

lemma parseBoard_empty:
  "parseBoard (platformWith doc) (anc, Element tag []) = boardOf emptyBezier []"
  by (simp add: parseBoard_def boardOf_def children_def getChildText_def querySelector_def
      descendants_def parseFloat_def parseInt_def platformWith_def bezierIn_def querySelectorIn_def)

text \<open>
  Claim C7. For every curve whose control polygon has fewer than two points and every
  sample count, \<^verbatim>\<open>generateBezierPoints\<close> returns the empty sequence.
\<close>

theorem generateBezierPoints_degenerate:
  "length (pg_points (bz_control_points bezier)) < 2 \<Longrightarrow> generateBezierPoints bezier numPoints = []"
  by (simp add: generateBezierPoints_def)

theorem generateBezierPoints_degenerate_witness:
  "generateBezierPoints (curveOf [pointAt 0 0 0] [] []) 50 = []"
  using generateBezierPoints_degenerate[of "curveOf [pointAt 0 0 0] [] []" 50] by simp

text \<open>
  Claim C2. For every curve with at least two control points whose two tangent polygons
  each have at least as many points as the control polygon, and every sample count
  \<open>n\<close>, \<^verbatim>\<open>generateBezierPoints\<close> returns exactly \<open>n\<close> points with no empty slot:
  segment \<open>seg\<close> of the \<open>k = count - 1\<close> cubic segments contributes
  \<open>segmentBudget n k seg\<close> samples (\<open>n div k\<close> each, the last one the remainder), and
  the budgets add up to \<open>n\<close>.
\<close>

theorem generateBezierPoints_cubic_count:
  assumes "2 \<le> length (pg_points (bz_control_points bezier))"
    and "length (pg_points (bz_control_points bezier)) \<le> length (pg_points (bz_tangents_1 bezier))"
    and "length (pg_points (bz_control_points bezier)) \<le> length (pg_points (bz_tangents_2 bezier))"
  shows "generateBezierPoints bezier n
           = map Some (segmentedSamples (cubicSegment bezier) n (length (pg_points (bz_control_points bezier)) - 1))
       \<and> length (generateBezierPoints bezier n) = n
       \<and> None \<notin> set (generateBezierPoints bezier n)
       \<and> sum_list (map (segmentBudget n (length (pg_points (bz_control_points bezier)) - 1))
                      [0..<length (pg_points (bz_control_points bezier)) - 1]) = n"
proof -
  let ?k = "length (pg_points (bz_control_points bezier)) - 1"
  have k: "0 < ?k" using assms(1) by simp
  have "generateBezierPoints bezier n = map Some (segmentedSamples (cubicSegment bezier) n ?k)"
    by (simp only: generateBezierPoints_cubic_unfold[OF assms] fillSegments_total[OF k])
  then show ?thesis
    using length_segmentedSamples[OF k] sum_segmentBudget[OF k] by auto
qed


theorem generateBezierPoints_cubic_count_witness:
  "length (generateBezierPoints
             (curveOf [pointAt 0 0 0, pointAt 50 20 0, pointAt 100 0 0]
                      [pointAt 0 0 0, pointAt 40 20 0, pointAt 90 5 0]
                      [pointAt 10 5 0, pointAt 60 20 0, pointAt 100 0 0]) 7) = 7
   \<and> None \<notin> set (generateBezierPoints
             (curveOf [pointAt 0 0 0, pointAt 50 20 0, pointAt 100 0 0]
                      [pointAt 0 0 0, pointAt 40 20 0, pointAt 90 5 0]
                      [pointAt 10 5 0, pointAt 60 20 0, pointAt 100 0 0]) 7)
   \<and> segmentBudget 7 2 0 = 3 \<and> segmentBudget 7 2 1 = 4"
  using generateBezierPoints_cubic_count[of
      "curveOf [pointAt 0 0 0, pointAt 50 20 0, pointAt 100 0 0]
               [pointAt 0 0 0, pointAt 40 20 0, pointAt 90 5 0]
               [pointAt 10 5 0, pointAt 60 20 0, pointAt 100 0 0]" 7, THEN conjunct2]
  by (simp add: segmentBudget_def)




text \<open>
  Claim C5, as amended. For every point sequence that contains a point whose y
  coordinate is below \<open>-0.001\<close>, \<^verbatim>\<open>mirrorCrossSectionPoints\<close> returns its input
  unchanged, so applying it twice is applying it once.
\<close>

theorem mirrorCrossSectionPoints_already_mirrored:
  assumes "\<exists>pt \<in> set halfPoints. pt_y pt < Fin (- 0.001)"
  shows "mirrorCrossSectionPoints halfPoints = halfPoints
       \<and> mirrorCrossSectionPoints (mirrorCrossSectionPoints halfPoints)
           = mirrorCrossSectionPoints halfPoints"
proof -
  have ex: "list_ex (\<lambda>pt. pt_y pt < Fin (- 0.001)) halfPoints"
    using assms by (simp add: list_ex_iff)
  have ne: "halfPoints \<noteq> []" using assms by auto
  have "mirrorCrossSectionPoints halfPoints = halfPoints"
    using ex ne by (simp add: mirrorCrossSectionPoints_def)
  then show ?thesis by simp
qed

theorem mirrorCrossSectionPoints_already_mirrored_witness:
  "mirrorCrossSectionPoints [pointAt 0 0 0, pointAt 0 5 1, pointAt 0 (- 5) 1]
     = [pointAt 0 0 0, pointAt 0 5 1, pointAt 0 (- 5) 1]"
  using mirrorCrossSectionPoints_already_mirrored[of "[pointAt 0 0 0, pointAt 0 5 1, pointAt 0 (- 5) 1]"]
  by (simp add: pointAt_def)

text \<open>
  Claim C5 as stated fails for a negative y coordinate within the tolerance: the
  profile is then taken for a half profile and its mirror image is appended. The second
  profile shows that applying the operation twice can differ from applying it once.
\<close>

theorem mirrorCrossSectionPoints_small_negative:
  "pt_y ([pointAt 0 (- 0.0005) 0, pointAt 0 5 1] ! 0) < Fin 0
   \<and> mirrorCrossSectionPoints [pointAt 0 (- 0.0005) 0, pointAt 0 5 1]
       = [pointAt 0 (- 0.0005) 0, pointAt 0 5 1, pointAt 0 (- 5) 1]
   \<and> mirrorCrossSectionPoints [pointAt 0 (- 0.0005) 0, pointAt 0 5 1]
       \<noteq> [pointAt 0 (- 0.0005) 0, pointAt 0 5 1]
   \<and> pt_y ([pointAt 0 0.0005 0, pointAt 0 (- 0.0005) 1] ! 1) < Fin 0
   \<and> mirrorCrossSectionPoints [pointAt 0 0.0005 0, pointAt 0 (- 0.0005) 1]
       = [pointAt 0 0.0005 0, pointAt 0 (- 0.0005) 1, pointAt 0 0.0005 1]
   \<and> mirrorCrossSectionPoints (mirrorCrossSectionPoints [pointAt 0 0.0005 0, pointAt 0 (- 0.0005) 1])
       = [pointAt 0 0.0005 0, pointAt 0 (- 0.0005) 1, pointAt 0 0.0005 1,
          pointAt 0 (- 0.0005) 1, pointAt 0 0.0005 1]
   \<and> mirrorCrossSectionPoints (mirrorCrossSectionPoints [pointAt 0 0.0005 0, pointAt 0 (- 0.0005) 1])
       \<noteq> mirrorCrossSectionPoints [pointAt 0 0.0005 0, pointAt 0 (- 0.0005) 1]"
  by (simp add: mirrorCrossSectionPoints_def pointAt_def upt_rec)

text \<open>
  Claim C6. On a point sequence whose x coordinates never decrease,
  \<^verbatim>\<open>interpolateZAtX\<close> returns the first point's z for a query below the first
  point's x and the last point's z for a query above the last point's x; on the empty
  sequence it returns 0 for every query.
\<close>

theorem interpolateZAtX_clamps:
  assumes sorted: "sorted_wrt (\<lambda>p q. pt_x p \<le> pt_x q) pts"
  shows "interpolateZAtX [] x = Fin 0
       \<and> (pts \<noteq> [] \<and> x < pt_x (hd pts) \<longrightarrow> interpolateZAtX pts x = pt_z (hd pts))
       \<and> (pts \<noteq> [] \<and> pt_x (last pts) < x \<longrightarrow> interpolateZAtX pts x = pt_z (last pts))"
proof (intro conjI impI)
  show "interpolateZAtX [] x = Fin 0" by (simp add: interpolateZAtX_def)
next
  assume a: "pts \<noteq> [] \<and> x < pt_x (hd pts)"
  then have hd: "hd pts = pts ! 0" by (simp add: hd_conv_nth)
  have below: "x < pt_x (pts ! 0)" using a hd by metis
  have "\<not> (pt_x (pts ! j) \<le> x \<and> x \<le> pt_x (pts ! (j + 1)))" if "j + 1 < length pts" for j
  proof (cases "j = 0")
    case True
    then show ?thesis using below number_less_not_le by blast
  next
    case False
    then have "pt_x (pts ! 0) \<le> pt_x (pts ! j)"
      using sorted_x_nth[OF sorted, of 0 j] that by simp
    then have "x < pt_x (pts ! j)" using below number_less_le by blast
    then show ?thesis using number_less_not_le by blast
  qed
  then have "interpolateZAtX_loop pts x 0 = None" by (rule interpolateZAtX_loop_none)
  then show "interpolateZAtX pts x = pt_z (hd pts)"
    using a below hd by (simp add: interpolateZAtX_def)
next
  assume a: "pts \<noteq> [] \<and> pt_x (last pts) < x"
  then have last: "last pts = pts ! (length pts - 1)" by (simp add: last_conv_nth)
  have above: "pt_x (pts ! (length pts - 1)) < x" using a last by metis
  have "\<not> (pt_x (pts ! j) \<le> x \<and> x \<le> pt_x (pts ! (j + 1)))" if "j + 1 < length pts" for j
  proof (cases "j + 1 = length pts - 1")
    case True
    then show ?thesis using above number_less_not_le by auto
  next
    case False
    then have "pt_x (pts ! (j + 1)) \<le> pt_x (pts ! (length pts - 1))"
      using sorted_x_nth[OF sorted, of "j + 1" "length pts - 1"] that by simp
    then have "pt_x (pts ! (j + 1)) < x" using above number_le_less by blast
    then show ?thesis using number_less_not_le by blast
  qed
  then have "interpolateZAtX_loop pts x 0 = None" by (rule interpolateZAtX_loop_none)
  moreover have "\<not> x < pt_x (pts ! 0)"
  proof (cases "length pts = 1")
    case True
    then show ?thesis using above by (cases "pt_x (pts ! 0)"; cases x) auto
  next
    case False
    then have "pt_x (pts ! 0) \<le> pt_x (pts ! (length pts - 1))"
      using sorted_x_nth[OF sorted, of 0 "length pts - 1"] a
      by (cases pts) auto
    then have "pt_x (pts ! 0) < x" using above number_le_less by blast
    then show ?thesis by (cases "pt_x (pts ! 0)"; cases x) auto
  qed
  ultimately show "interpolateZAtX pts x = pt_z (last pts)"
    using a last by (simp add: interpolateZAtX_def)
qed

theorem interpolateZAtX_clamps_witness:
  "interpolateZAtX [pointAt 0 0 1, pointAt 10 0 5, pointAt 20 0 3] (Fin (- 3)) = Fin 1
   \<and> interpolateZAtX [pointAt 0 0 1, pointAt 10 0 5, pointAt 20 0 3] (Fin 25) = Fin 3"
  using interpolateZAtX_clamps[of "[pointAt 0 0 1, pointAt 10 0 5, pointAt 20 0 3]" "Fin (- 3)"]
        interpolateZAtX_clamps[of "[pointAt 0 0 1, pointAt 10 0 5, pointAt 20 0 3]" "Fin 25"]
  by (simp add: pointAt_def)


section \<open>Properties of the mesh synthesizer\<close>

lemma forEach_appends:
  assumes "forEach body js st = Inr st'"
    and "\<And>j s s'. body j s = Inr s' \<Longrightarrow> proj s' = proj s @ g j"
  shows "proj st' = proj st @ concat (map g js)"
  using assms(1)
proof (induction js arbitrary: st)
  case Nil
  then show ?case by simp
next
  case (Cons j js)
  then obtain s where s: "body j st = Inr s" and rest: "forEach body js s = Inr st'"
    by (auto split: sum.splits)
  have "proj st' = proj s @ concat (map g js)" using Cons.IH[OF rest] .
  then show ?case using assms(2)[OF s] by simp
qed

lemma forEach_grows:
  assumes "forEach body js st = Inr st'"
    and "\<And>j s s'. body j s = Inr s' \<Longrightarrow> length (proj s') = length (proj s) + k"
  shows "length (proj st') = length (proj st) + k * length js"
  using assms(1)
proof (induction js arbitrary: st)
  case Nil
  then show ?case by simp
next
  case (Cons j js)
  then obtain s where s: "body j st = Inr s" and rest: "forEach body js s = Inr st'"
    by (auto split: sum.splits)
  show ?case using Cons.IH[OF rest] assms(2)[OF s] by simp
qed

lemma surfaceRow_uvs:
  assumes "surfaceRow board minX actualLength uSteps vSteps i st = Inr st'"
  shows "snd (snd st') = snd (snd st) @ rowUVs uSteps vSteps i"
proof (cases "collapsesRow board (rowPosition minX actualLength uSteps i)")
  case True
  with assms show ?thesis
    unfolding surfaceRow_def Let_def rowUVs_def
    by (simp only: if_True) (erule forEach_appends, auto simp: pushVertex_def simp del: divide_number.simps)
next
  case False
  show ?thesis
  proof (cases "getInterpolatedCrossSection board (rowPosition minX actualLength uSteps i)")
    case (Inl e)
    with assms False show ?thesis by (simp add: surfaceRow_def Let_def)
  next
    case (Inr crossSection)
    with assms False show ?thesis
      unfolding surfaceRow_def Let_def rowUVs_def
      by (simp only: if_False sum.case)
         (erule forEach_appends, auto simp: pushVertex_def split: option.splits simp del: divide_number.simps)
  qed
qed

lemma surfaceRow_vertices:
  assumes "surfaceRow board minX actualLength uSteps vSteps i st = Inr st'"
  shows "length (fst st') = length (fst st) + 3 * Suc vSteps"
proof (cases "collapsesRow board (rowPosition minX actualLength uSteps i)")
  case True
  with assms have "length (fst st') = length (fst st) + 3 * length [0..<Suc vSteps]"
    unfolding surfaceRow_def Let_def
    by (simp only: if_True)
       (erule forEach_grows, auto simp: pushVertex_def simp del: divide_number.simps)
  then show ?thesis by simp
next
  case False
  show ?thesis
  proof (cases "getInterpolatedCrossSection board (rowPosition minX actualLength uSteps i)")
    case (Inl e)
    with assms False show ?thesis by (simp add: surfaceRow_def Let_def)
  next
    case (Inr crossSection)
    with assms False have "length (fst st') = length (fst st) + 3 * length [0..<Suc vSteps]"
      unfolding surfaceRow_def Let_def
      by (simp only: if_False sum.case)
         (erule forEach_grows,
          auto simp: pushVertex_def split: option.splits simp del: divide_number.simps)
    then show ?thesis by simp
  qed
qed

lemma nested_block:
  assumes len: "\<And>i j. i < n \<Longrightarrow> j < m \<Longrightarrow> length (f i j) = k"
    and i: "i < n" and j: "j < m"
  shows "take k (drop (k * (i * m + j)) (concat (map (\<lambda>i. concat (map (f i) [0..<m])) [0..<n])))
           = f i j"
proof -
  let ?row = "\<lambda>i. concat (map (f i) [0..<m])"
  let ?all = "concat (map ?row [0..<n])"
  have rowlen: "length (?row i') = m * k" if "i' < n" for i'
    using len that by (intro length_concat_blocks) auto
  have row: "take (m * k) (drop (i * (m * k)) ?all) = ?row i"
    using rowlen i by (intro block_of_concat) auto
  have inner: "take k (drop (j * k) (?row i)) = f i j"
    using len i j by (intro block_of_concat) auto
  have "k * (i * m + j) = j * k + i * (m * k)" by (simp add: algebra_simps)
  then have "take k (drop (k * (i * m + j)) ?all) = take k (drop (j * k) (drop (i * (m * k)) ?all))"
    by (simp only: drop_drop)
  also have "\<dots> = take k (drop (j * k) (take (m * k) (drop (i * (m * k)) ?all)))"
  proof -
    have "j * k + k \<le> m * k"
      using j by (metis Suc_leI mult_Suc mult_le_mono1 add.commute)
    then show ?thesis by (simp add: drop_take min_def)
  qed
  finally show ?thesis by (simp only: row inner)
qed

lemma generateMeshSLinearInterpolation_buffers:
  assumes "generateMeshSLinearInterpolation design = Inr (Mesh (BufferGeometry vs ns us idx) m)"
  shows "idx = generateTriangles [] 40 32"
    and "length vs = 3 * (41 * 33)"
    and "us = concat (map (rowUVs 40 32) [0..<41])"
proof -
  obtain minX actualLength where
    rows: "forEach (surfaceRow (dsn_board design) minX actualLength 40 32) [0..<Suc 40] ([], [], [])
             = Inr (vs, ns, us)"
    and "idx = generateTriangles [] 40 32"
    using assms
    by (auto simp: generateMeshSLinearInterpolation_def Let_def
             split: sum.splits prod.splits if_splits simp del: upt_Suc)
  then show "idx = generateTriangles [] 40 32" by simp
  have "length (fst (vs, ns, us)) = length (fst (([], [], [])::buffers)) + 3 * Suc 32 * length [0..<Suc 40]"
    using rows by (rule forEach_grows) (rule surfaceRow_vertices)
  then show "length vs = 3 * (41 * 33)" by simp
  have "snd (snd (vs, ns, us)) = snd (snd (([], [], [])::buffers)) @ concat (map (rowUVs 40 32) [0..<Suc 40])"
    using rows by (rule forEach_appends) (rule surfaceRow_uvs)
  then show "us = concat (map (rowUVs 40 32) [0..<41])" by simp
qed

lemma vertex_uv:
  assumes "i \<le> 40" and "j \<le> 32"
  shows "take 2 (drop (2 * (i * 33 + j)) (concat (map (rowUVs 40 32) [0..<41])))
           = [Fin (real i) / Fin 40, Fin (real j) / Fin 32]"
  using nested_block[of 41 33 "\<lambda>i j. [Fin (real i) / Fin 40, Fin (real j) / Fin 32]" 2 i j] assms
  by (simp add: rowUVs_def[abs_def] del: divide_number.simps upt_Suc)


lemma forEach_total:
  "(\<And>j s. \<exists>s'. body j s = Inr s') \<Longrightarrow> \<exists>st'. forEach body js st = Inr st'"
proof (induction js arbitrary: st)
  case Nil
  then show ?case by simp
next
  case (Cons j js)
  obtain s where "body j st = Inr s" using Cons.prems by blast
  then show ?case using Cons.IH[OF Cons.prems, of s] by simp
qed

lemma forEach_total_buffers:
  "(\<And>j s. \<exists>s'. body j s = Inr s') \<Longrightarrow> \<exists>vs ns us. forEach body js st = Inr (vs, ns, us)"
  using forEach_total[of body js st] by (metis surj_pair)

declare findSurrounding.simps [simp del]

lemma flat_board_cross_section:
  "getInterpolatedCrossSection (boardOf emptyBezier [coupleOf emptyBezier]) x = Inr []"
proof -
  have empty: "generateBezierPoints emptyBezier 50 = []"
    by (simp add: generateBezierPoints_def emptyBezier_def emptyPolygon_def)
  have scaled: "generateScaledCrossSection (coupleOf emptyBezier) w t = []" for w t
    by (simp add: generateScaledCrossSection_def coupleOf_def empty arrayPoints_def
        mirrorCrossSectionPoints_def)
  have found: "findSurrounding [coupleOf emptyBezier] x 0 (0, 0) = (0, 0)"
    by (simp add: findSurrounding.simps[of _ _ 0] findSurrounding.simps[of _ _ "Suc 0"]
        coupleOf_def emptyBezier_def emptyPolygon_def)
  show ?thesis
    by (simp add: getInterpolatedCrossSection_def boardOf_def found scaled Let_def)
qed

lemma flat_board_row:
  "\<exists>st'. surfaceRow (boardOf emptyBezier [coupleOf emptyBezier]) minX actualLength uSteps vSteps i st
           = Inr st'"
proof -
  have "\<not> collapsesRow (boardOf emptyBezier [coupleOf emptyBezier]) x" for x
    by (simp add: collapsesRow_def getWidthAtX_def boardOf_def arrayPoints_def
        generateBezierPoints_def emptyBezier_def emptyPolygon_def)
  then show ?thesis
    unfolding surfaceRow_def Let_def
    by (simp add: flat_board_cross_section getPointOnCrossSection_def
        del: upt_Suc divide_number.simps)
       (rule forEach_total_buffers, blast)
qed

lemma flat_board_mesh:
  "\<exists>vs ns us. generateMeshSLinearInterpolation
       \<lparr> dsn_board = boardOf emptyBezier [coupleOf emptyBezier], dsn_scene = defaultScene \<rparr>
     = Inr (Mesh (BufferGeometry vs ns us (generateTriangles [] 40 32))
                 (MeshPhongMaterial 16777215 (Some (Fin 30)) (Some DoubleSide)))"
proof -
  obtain st' where
    "forEach (surfaceRow (boardOf emptyBezier [coupleOf emptyBezier]) (Fin 0 - Fin 2)
                (Fin 0 + Fin 2 - (Fin 0 - Fin 2)) 40 32) [0..<Suc 40] ([], [], []) = Inr st'"
    using forEach_total[of "surfaceRow (boardOf emptyBezier [coupleOf emptyBezier]) (Fin 0 - Fin 2)
                (Fin 0 + Fin 2 - (Fin 0 - Fin 2)) 40 32"] flat_board_row
    by blast
  moreover obtain vs ns us where "st' = (vs, ns, us)" by (cases st') auto
  moreover have "arrayPoints (generateBezierPoints emptyBezier 400) = []"
    by (simp add: generateBezierPoints_def emptyBezier_def emptyPolygon_def arrayPoints_def)
  ultimately show ?thesis
    by (simp add: generateMeshSLinearInterpolation_def Let_def boardOf_def
        del: upt_Suc plus_number.simps)
qed


text \<open>
  Claim C8. The index buffer holds two triangles (six indices) for each of the
  \<open>uSteps * vSteps\<close> quads. The quad \<open>(i, j)\<close> starts at offset
  \<open>6 * (i * vSteps + j)\<close>; its vertex \<open>(i, j)\<close> is at buffer offset
  \<open>i * (vSteps + 1) + j\<close>, and in the last column (\<open>j = vSteps - 1\<close>) its right-hand
  vertices are those of column 0 of rows \<open>i\<close> and \<open>i + 1\<close>. A mesh that
  \<^verbatim>\<open>generateMeshSLinearInterpolation\<close> returns has this index buffer for the 40 by
  32 grid and \<open>41 * 33\<close> vertices, and the vertex at slot \<open>i * 33 + j\<close> of its
  buffers is the one pushed for row \<open>i\<close> and column \<open>j\<close>: its texture coordinates
  are \<open>(i / 40, j / 32)\<close>.
\<close>

theorem generateTriangles_grid:
  "length (generateTriangles [] uSteps vSteps) = 3 * (2 * uSteps * vSteps)
   \<and> (\<forall>i<uSteps. \<forall>j<vSteps.
         take 6 (drop (6 * (i * vSteps + j)) (generateTriangles [] uSteps vSteps))
           = [i * (vSteps + 1) + j,
              (i + 1) * (vSteps + 1) + j,
              (if j = vSteps - 1 then i * (vSteps + 1) else i * (vSteps + 1) + j + 1),
              (if j = vSteps - 1 then i * (vSteps + 1) else i * (vSteps + 1) + j + 1),
              (i + 1) * (vSteps + 1) + j,
              (if j = vSteps - 1 then (i + 1) * (vSteps + 1) else (i + 1) * (vSteps + 1) + j + 1)])
   \<and> (\<forall>vs ns us idx m.
         generateMeshSLinearInterpolation design = Inr (Mesh (BufferGeometry vs ns us idx) m) \<longrightarrow>
           idx = generateTriangles [] 40 32
           \<and> length vs = 3 * (41 * 33)
           \<and> (\<forall>i\<le>40. \<forall>j\<le>32.
                 take 2 (drop (2 * (i * 33 + j)) us) = [Fin (real i) / Fin 40, Fin (real j) / Fin 32]))"
proof (intro conjI allI impI)
  show "length (generateTriangles [] uSteps vSteps) = 3 * (2 * uSteps * vSteps)"
    using length_concat_blocks[of uSteps "quadRow vSteps" "vSteps * 6"]
    by (simp add: generateTriangles_concat)
next
  fix i j
  assume i: "i < uSteps" and j: "j < vSteps"
  have "take 6 (drop (6 * (i * vSteps + j))
                 (concat (map (\<lambda>i. concat (map (quadIndices vSteps i) [0..<vSteps])) [0..<uSteps])))
          = quadIndices vSteps i j"
    using i j by (intro nested_block) simp_all
  then show "take 6 (drop (6 * (i * vSteps + j)) (generateTriangles [] uSteps vSteps))
           = [i * (vSteps + 1) + j,
              (i + 1) * (vSteps + 1) + j,
              (if j = vSteps - 1 then i * (vSteps + 1) else i * (vSteps + 1) + j + 1),
              (if j = vSteps - 1 then i * (vSteps + 1) else i * (vSteps + 1) + j + 1),
              (i + 1) * (vSteps + 1) + j,
              (if j = vSteps - 1 then (i + 1) * (vSteps + 1) else (i + 1) * (vSteps + 1) + j + 1)]"
    by (simp add: generateTriangles_concat quadRow_def[abs_def] quadIndices_def Let_def)
next
  fix vs ns us idx m
  assume mesh: "generateMeshSLinearInterpolation design = Inr (Mesh (BufferGeometry vs ns us idx) m)"
  show "idx = generateTriangles [] 40 32" and "length vs = 3 * (41 * 33)"
    using generateMeshSLinearInterpolation_buffers[OF mesh] by simp_all
  fix i j :: nat
  assume "i \<le> 40" and "j \<le> 32"
  then show "take 2 (drop (2 * (i * 33 + j)) us) = [Fin (real i) / Fin 40, Fin (real j) / Fin 32]"
    using generateMeshSLinearInterpolation_buffers(3)[OF mesh] vertex_uv by simp
qed

theorem generateTriangles_grid_witness:
  "length (generateTriangles [] 40 32) = 7680
   \<and> take 6 (drop (6 * (1 * 32 + 31)) (generateTriangles [] 40 32)) = [64, 97, 33, 33, 97, 66]
   \<and> take 6 (drop (6 * (0 * 32 + 0)) (generateTriangles [] 40 32)) = [0, 33, 1, 1, 33, 34]
   \<and> (\<exists>vs ns us.
         generateMeshSLinearInterpolation
           \<lparr> dsn_board = boardOf emptyBezier [coupleOf emptyBezier], dsn_scene = defaultScene \<rparr>
           = Inr (Mesh (BufferGeometry vs ns us (generateTriangles [] 40 32))
                       (MeshPhongMaterial 16777215 (Some (Fin 30)) (Some DoubleSide)))
         \<and> length vs = 4059
         \<and> take 2 (drop (2 * (1 * 33 + 2)) us) = [Fin (1 / 40), Fin (1 / 16)])"
proof -
  let ?d = "\<lparr> dsn_board = boardOf emptyBezier [coupleOf emptyBezier], dsn_scene = defaultScene \<rparr>"
  note grid = generateTriangles_grid[of 40 32 ?d]
  obtain vs ns us where mesh:
    "generateMeshSLinearInterpolation ?d
       = Inr (Mesh (BufferGeometry vs ns us (generateTriangles [] 40 32))
                   (MeshPhongMaterial 16777215 (Some (Fin 30)) (Some DoubleSide)))"
    using flat_board_mesh by blast
  have "length vs = 4059"
    using grid[THEN conjunct2, THEN conjunct2, rule_format, OF mesh] by simp
  moreover have "take 2 (drop (2 * (1 * 33 + 2)) us) = [Fin (1 / 40), Fin (1 / 16)]"
    using grid[THEN conjunct2, THEN conjunct2, rule_format, OF mesh, THEN conjunct2, THEN conjunct2,
               rule_format, of 1 2]
    by simp
  moreover have "length (generateTriangles [] 40 32) = 7680"
    using grid[THEN conjunct1] by simp
  moreover have "take 6 (drop (6 * (1 * 32 + 31)) (generateTriangles [] 40 32)) = [64, 97, 33, 33, 97, 66]"
    using grid[THEN conjunct2, THEN conjunct1, rule_format, of 1 31] by simp
  moreover have "take 6 (drop (6 * (0 * 32 + 0)) (generateTriangles [] 40 32)) = [0, 33, 1, 1, 33, 34]"
    using grid[THEN conjunct2, THEN conjunct1, rule_format, of 0 0] by simp
  ultimately show ?thesis using mesh by blast
qed

text \<open>
  Claim C9. The outline's sampled polyline is empty exactly when the outline has fewer
  than two control points; then \<^verbatim>\<open>getWidthAtX\<close> returns 20 for every query, not the
  0 of the beyond-range case, and the test that collapses a row to a centerline point
  fails for every position.
\<close>

theorem getWidthAtX_empty_outline:
  "(generateBezierPoints (bd_otl board) 200 = []
      \<longleftrightarrow> length (pg_points (bz_control_points (bd_otl board))) < 2)
   \<and> (generateBezierPoints (bd_otl board) 200 = []
      \<longrightarrow> getWidthAtX board x = Fin 20 \<and> getWidthAtX board x \<noteq> Fin 0 \<and> \<not> collapsesRow board x)"
proof (intro conjI impI)
  show "generateBezierPoints (bd_otl board) 200 = []
      \<longleftrightarrow> length (pg_points (bz_control_points (bd_otl board))) < 2"
    using length_generateBezierPoints[of "bd_otl board" 200]
    by (metis length_0_conv zero_neq_numeral)
next
  assume "generateBezierPoints (bd_otl board) 200 = []"
  then show "getWidthAtX board x = Fin 20" "getWidthAtX board x \<noteq> Fin 0" "\<not> collapsesRow board x"
    by (simp_all add: getWidthAtX_def arrayPoints_def collapsesRow_def)
qed

theorem getWidthAtX_empty_outline_witness:
  "getWidthAtX (boardOf emptyBezier []) (Fin 50) = Fin 20
   \<and> \<not> collapsesRow (boardOf emptyBezier []) (Fin 50)"
  using getWidthAtX_empty_outline[of "boardOf emptyBezier []" "Fin 50"]
  by (simp add: boardOf_def emptyBezier_def emptyPolygon_def)

text \<open>
  Claim C1, as amended. For every design whose board has no cross-section,
  \<^verbatim>\<open>generateMesh\<close> raises nothing: it returns the placeholder box of the
  simple-interpolation fallback.
\<close>

theorem generateMesh_no_cross_sections:
  "bd_couples (dsn_board design) = [] \<Longrightarrow>
     generateMesh (Some design)
       = Inr (Mesh (BoxGeometry (Fin 2) (Fin 0.5) (Fin 0.1)) (MeshPhongMaterial 16751001 None None))"
  by (simp add: generateMesh_def generateMeshSimpleInterpolation_def)

theorem generateMesh_no_cross_sections_witness:
  "generateMesh (Some \<lparr> dsn_board = boardOf (curveOf [pointAt 0 0 0, pointAt 100 0 0] [] []) [],
                        dsn_scene = defaultScene \<rparr>)
     = Inr (Mesh (BoxGeometry (Fin 2) (Fin 0.5) (Fin 0.1)) (MeshPhongMaterial 16751001 None None))"
  using generateMesh_no_cross_sections[of
      "\<lparr> dsn_board = boardOf (curveOf [pointAt 0 0 0, pointAt 100 0 0] [] []) [],
         dsn_scene = defaultScene \<rparr>"]
  by (simp add: boardOf_def)

text \<open>
  Claim C1 as stated fails on the design decoded from a document whose board is empty:
  the board has no cross-section, and \<^verbatim>\<open>generateMesh\<close> returns a mesh.
\<close>

theorem generateMesh_placeholder_box:
  "parseS3DX (platformWith (Element ''Shape3d_design'' [Element ''Board'' []])) []
     = Some \<lparr> dsn_board = boardOf emptyBezier [], dsn_scene = defaultScene \<rparr>
   \<and> bd_couples (dsn_board \<lparr> dsn_board = boardOf emptyBezier [], dsn_scene = defaultScene \<rparr>) = []
   \<and> generateMesh (Some \<lparr> dsn_board = boardOf emptyBezier [], dsn_scene = defaultScene \<rparr>)
       = Inr (Mesh (BoxGeometry (Fin 2) (Fin 0.5) (Fin 0.1)) (MeshPhongMaterial 16751001 None None))"
proof -
  have "parseS3DX (platformWith (Element ''Shape3d_design'' [Element ''Board'' []])) []
     = Some \<lparr> dsn_board = boardOf emptyBezier [], dsn_scene = defaultScene \<rparr>"
    by (simp add: parseS3DX_def parseS3DX_try_def bare_document_root bare_document_board
        bare_document_scene parseBoard_empty)
  moreover have "bd_couples (boardOf emptyBezier []) = []" by (simp add: boardOf_def)
  ultimately show ?thesis
    by (simp add: generateMesh_def generateMeshSimpleInterpolation_def)
qed

section \<open>Properties of the format decoder\<close>

text \<open>
  Claim C3. For every document in which a \<^verbatim>\<open>Shape3d_design\<close> element is present and
  has no \<^verbatim>\<open>Board\<close> element below it, decoding fails with the error
  \<^verbatim>\<open>No Board element found\<close> and produces no design: the body of \<^verbatim>\<open>parseS3DX\<close>
  raises the error, and \<^verbatim>\<open>parseS3DX\<close> returns \<^verbatim>\<open>null\<close>.
\<close>

theorem parseS3DX_missing_board:
  assumes "dom_parseFromString js xmlContent = Inr doc"
    and "document_querySelector ''Shape3d_design'' doc = Some rootElement"
    and "querySelector ''Board'' rootElement = None"
  shows "parseS3DX_try js xmlContent = Inl (Error ''No Board element found'')
       \<and> parseS3DX js xmlContent = None"
  using assms by (simp add: parseS3DX_def parseS3DX_try_def)

theorem parseS3DX_missing_board_witness:
  "parseS3DX_try (platformWith (Element ''Shape3d_design'' [Element ''Scene'' []])) []
     = Inl (Error ''No Board element found'')
   \<and> parseS3DX (platformWith (Element ''Shape3d_design'' [Element ''Scene'' []])) [] = None"
  using parseS3DX_missing_board[of "platformWith (Element ''Shape3d_design'' [Element ''Scene'' []])" "[]"
      "Element ''Shape3d_design'' [Element ''Scene'' []]"
      "([], Element ''Shape3d_design'' [Element ''Scene'' []])"]
  by (simp add: document_querySelector_def querySelector_def descendants_def)

text \<open>
  Claim C10. For every platform and every input text, \<^verbatim>\<open>parseS3DX\<close> returns a design
  or \<^verbatim>\<open>null\<close>, and it returns \<^verbatim>\<open>null\<close> exactly when its body raises: when the
  platform's parser raises, when no \<^verbatim>\<open>Shape3d_design\<close> element is found, or when no
  \<^verbatim>\<open>Board\<close> element is found below it. Every function of the decoder is total (the
  probing loops terminate), so no other outcome exists.
\<close>

theorem parseS3DX_total:
  "parseS3DX js xmlContent =
     (case dom_parseFromString js xmlContent of
        Inl e \<Rightarrow> None
      | Inr doc \<Rightarrow>
          (case document_querySelector ''Shape3d_design'' doc of
             None \<Rightarrow> None
           | Some rootElement \<Rightarrow>
               (case querySelector ''Board'' rootElement of
                  None \<Rightarrow> None
                | Some boardEl \<Rightarrow>
                    Some \<lparr> dsn_board = parseBoard js boardEl,
                           dsn_scene = (case querySelector ''Scene'' rootElement of
                                          Some sceneEl \<Rightarrow> parseScene js sceneEl
                                        | None \<Rightarrow> defaultScene) \<rparr>)))
   \<and> (parseS3DX js xmlContent = None) = isl (parseS3DX_try js xmlContent)"
  by (simp add: parseS3DX_def parseS3DX_try_def Let_def split: sum.splits option.splits)

theorem parseS3DX_total_witness:
  "parseS3DX (platformWith (Element ''Shape3d_design'' [Element ''Board'' []])) []
     = Some \<lparr> dsn_board = boardOf emptyBezier [], dsn_scene = defaultScene \<rparr>
   \<and> parseS3DX (platformWith (Element ''svg'' [Text ''x''])) [] = None
   \<and> parseS3DX ((platformWith (Text [])) \<lparr> dom_parseFromString := (\<lambda>s. Inl TypeError) \<rparr>) [] = None"
  using parseS3DX_total[of "platformWith (Element ''Shape3d_design'' [Element ''Board'' []])" "[]"]
        parseS3DX_total[of "platformWith (Element ''svg'' [Text ''x''])" "[]"]
        parseS3DX_total[of "(platformWith (Text [])) \<lparr> dom_parseFromString := (\<lambda>s. Inl TypeError) \<rparr>" "[]"]
  by (simp add: bare_document_root bare_document_board bare_document_scene parseBoard_empty
      document_querySelector_def)

end
